theory Spec2Isabelle
  imports Main "HOL-Library.Word" "HOL-Library.Multiset"
begin

section \<open>JavaScript values of the request\<close>

text \<open>
  A JavaScript string is a sequence of 16-bit code units; a character outside the basic
  plane is two of them, a high and a low surrogate. \<open>js\<close> writes a string of the
  first 256 code points as a literal.
\<close>

type_synonym jsstring = "16 word list"

definition js :: "string \<Rightarrow> jsstring" where
  "js s = map (\<lambda>c. of_nat (of_char c)) s"

text \<open>
  The white space and line terminators of the language: what the regular expression
  class \<^verbatim>\<open>\s\<close> matches and \<^verbatim>\<open>String.prototype.trim\<close> removes. The \<^verbatim>\<open>trim\<close> sanitizer
  of the validation chain and the schema option \<^verbatim>\<open>trim: true\<close> remove the same code
  units from both ends.
\<close>

definition isSpace :: "16 word \<Rightarrow> bool" where
  "isSpace c = (c = 0x09 \<or> c = 0x0A \<or> c = 0x0B \<or> c = 0x0C \<or> c = 0x0D \<or> c = 0x20 \<or>
                c = 0xA0 \<or> c = 0x1680 \<or> (0x2000 \<le> c \<and> c \<le> 0x200A) \<or> c = 0x2028 \<or>
                c = 0x2029 \<or> c = 0x202F \<or> c = 0x205F \<or> c = 0x3000 \<or> c = 0xFEFF)"

definition trim :: "jsstring \<Rightarrow> jsstring" where
  "trim s = rev (dropWhile isSpace (rev (dropWhile isSpace s)))"

text \<open>
  The request body \<^verbatim>\<open>req.body\<close>, as \<^verbatim>\<open>express.json()\<close> leaves it. The fields
  \<^verbatim>\<open>title\<close>, \<^verbatim>\<open>content\<close> and \<^verbatim>\<open>author\<close> are absent (\<open>None\<close>) or strings in the
  raw body, and strings once the sanitizers have run. \<^verbatim>\<open>tags\<close> is absent, a string
  (a value that is not an array) or an array; an element of the array is a string or
  the object \<^verbatim>\<open>{}\<close>, which is not text and which the schema cannot cast to a string.
\<close>

datatype elem = Text jsstring | Object

datatype jsval = Undefined | Str jsstring | Arr "elem list"

record 'a body =
  body_title :: 'a
  body_content :: 'a
  body_author :: 'a
  body_tags :: jsval

section \<open>The validation chains of \<^verbatim>\<open>validateBlog\<close>\<close>

text \<open>One entry of \<^verbatim>\<open>errors.array()\<close>: the field and the message of a failed validator.\<close>

record verror =
  param :: string
  msg :: string

text \<open>A standard sanitizer reads the field as a string: an absent field is the empty string.\<close>

definition toString :: "jsstring option \<Rightarrow> jsstring" where
  "toString v = (case v of None \<Rightarrow> [] | Some s \<Rightarrow> s)"

definition notEmpty :: "jsstring \<Rightarrow> bool" where
  "notEmpty s = (s \<noteq> [])"

text \<open>
  The length that \<^verbatim>\<open>isLength\<close> compares with its bound is not the number of code units:
  the validator subtracts the variation selectors U+FE0E and U+FE0F and one for every
  surrogate pair (the matches of \<^verbatim>\<open>/[\uD800-\uDBFF][\uDC00-\uDFFF]/g\<close>, found from left
  to right without overlap).
\<close>

definition isHigh :: "16 word \<Rightarrow> bool" where
  "isHigh c = (0xD800 \<le> c \<and> c \<le> 0xDBFF)"

definition isLow :: "16 word \<Rightarrow> bool" where
  "isLow c = (0xDC00 \<le> c \<and> c \<le> 0xDFFF)"

fun surrogatePairs :: "jsstring \<Rightarrow> nat" where
  "surrogatePairs (a # b # cs) =
     (if isHigh a \<and> isLow b then Suc (surrogatePairs cs) else surrogatePairs (b # cs))"
| "surrogatePairs cs = 0"

definition presentationSequences :: "jsstring \<Rightarrow> nat" where
  "presentationSequences s = length (filter (\<lambda>c. c = 0xFE0F \<or> c = 0xFE0E) s)"

definition characters :: "jsstring \<Rightarrow> nat" where
  "characters s = length s - presentationSequences s - surrogatePairs s"

definition isLength_max :: "nat \<Rightarrow> jsstring \<Rightarrow> bool" where
  "isLength_max n s = (characters s \<le> n)"

definition isArray :: "jsval \<Rightarrow> bool" where
  "isArray v = (case v of Arr xs \<Rightarrow> True | Str s \<Rightarrow> False | Undefined \<Rightarrow> False)"

text \<open>A validator followed by \<^verbatim>\<open>withMessage\<close>: a failure records one error and the chain goes on.\<close>

definition check :: "bool \<Rightarrow> string \<Rightarrow> string \<Rightarrow> verror list" where
  "check ok field message = (if ok then [] else [\<lparr>param = field, msg = message\<rparr>])"

text \<open>
  \<^verbatim>\<open>validateBlog\<close>: the four chains run one after the other. Each \<^verbatim>\<open>trim()\<close> writes the
  trimmed string back into the body; every validator of every chain runs (no chain bails
  out), and \<^verbatim>\<open>optional()\<close> skips the chain of an absent \<^verbatim>\<open>tags\<close>. \<^verbatim>\<open>isArray()\<close> looks
  at the value only, not at its elements. The result is the sanitized body and the
  errors that \<^verbatim>\<open>validationResult(req)\<close> holds.
\<close>

definition validateBlog :: "jsstring option body \<Rightarrow> jsstring body \<times> verror list" where
  "validateBlog b =
    (let title = trim (toString (body_title b));
         content = trim (toString (body_content b));
         author = trim (toString (body_author b));
         tags = body_tags b
     in (\<lparr>body_title = title, body_content = content, body_author = author, body_tags = tags\<rparr>,
         check (notEmpty title) ''title'' ''Title is required'' @
         check (isLength_max 100 title) ''title'' ''Title cannot exceed 100 characters'' @
         check (notEmpty content) ''content'' ''Content is required'' @
         check (notEmpty author) ''author'' ''Author is required'' @
         check (isLength_max 50 author) ''author'' ''Author name cannot exceed 50 characters'' @
         (if tags = Undefined then []
          else check (isArray tags) ''tags'' ''Tags must be an array'')))"

section \<open>The Blog model and the storage layer\<close>

record blog =
  doc_id :: nat
  title :: jsstring
  content :: jsstring
  author :: jsstring
  tags :: "jsstring list"
  createdAt :: int
  updatedAt :: int

text \<open>The \<^verbatim>\<open>name\<close> of an error a model call rejects with.\<close>

datatype error = CastError | ValidationError | MongoError

text \<open>
  The update that \<^verbatim>\<open>findOneAndUpdate\<close> sends, after the cast: the keys it sets. A key
  whose value is \<^verbatim>\<open>undefined\<close> is left out of the update (\<open>None\<close>), and the stored
  value of that field stays.
\<close>

record update =
  set_title :: jsstring
  set_content :: jsstring
  set_author :: jsstring
  set_tags :: "jsstring list option"
  set_updatedAt :: int

text \<open>The calls that reach the database, in the order they were sent.\<close>

datatype db_call =
  Find | FindOne nat | InsertOne blog | FindOneAndUpdate nat update | FindOneAndDelete nat

text \<open>
  The world a handler runs in: the collection in insertion order, the counter new
  identifiers are drawn from, the clock (\<open>clock w k\<close> is what the \<open>k\<close>-th call of
  \<^verbatim>\<open>Date.now()\<close> returns, in milliseconds, and \<open>ticks\<close> counts the calls made),
  whether the database answers, and the calls sent to it.
\<close>

record world =
  docs :: "blog list"
  nextId :: nat
  clock :: "nat \<Rightarrow> int"
  ticks :: nat
  up :: bool
  trace :: "db_call list"

definition Date_now :: "world \<Rightarrow> int \<times> world" where
  "Date_now w = (clock w (ticks w), w\<lparr>ticks := Suc (ticks w)\<rparr>)"

text \<open>\<^verbatim>\<open>tags || []\<close>: an absent value and the empty string are falsy.\<close>

definition or_empty :: "jsval \<Rightarrow> jsval" where
  "or_empty v = (case v of Undefined \<Rightarrow> Arr [] | Str s \<Rightarrow> (if s = [] then Arr [] else Str s)
                 | Arr xs \<Rightarrow> Arr xs)"

text \<open>
  The schema type of \<^verbatim>\<open>tags\<close>, an array of trimmed strings. The cast of an element
  trims a string and fails on an object; the cast of an array fails when the cast of
  an element does; a value that is not an array is cast as the array of that one value.
  \<open>castTags\<close> is \<open>None\<close> when the cast fails and \<open>Some None\<close> when the value is
  \<^verbatim>\<open>undefined\<close>, so that there is nothing to cast.
\<close>

fun castString :: "elem \<Rightarrow> jsstring option" where
  "castString (Text s) = Some (trim s)"
| "castString Object = None"

fun castArray :: "elem list \<Rightarrow> jsstring list option" where
  "castArray [] = Some []"
| "castArray (e # es) =
     (case castString e of
        None \<Rightarrow> None
      | Some s \<Rightarrow> (case castArray es of None \<Rightarrow> None | Some ss \<Rightarrow> Some (s # ss)))"

definition castTags :: "jsval \<Rightarrow> jsstring list option option" where
  "castTags v = (case v of Undefined \<Rightarrow> Some None | Str s \<Rightarrow> Some (Some [trim s])
                 | Arr es \<Rightarrow> (case castArray es of None \<Rightarrow> None | Some ss \<Rightarrow> Some (Some ss)))"

text \<open>
  \<^verbatim>\<open>new Blog({title, content, author, tags})\<close>. The clock is read three times: when the
  identifier is generated, and by the two defaults \<^verbatim>\<open>Date.now\<close>, for \<^verbatim>\<open>createdAt\<close> and
  then for \<^verbatim>\<open>updatedAt\<close>. The string setters trim. An absent \<^verbatim>\<open>tags\<close> takes the default
  of an array path, the empty array. A value that does not cast does not raise here: the
  path keeps its default and the failure is kept with the document (the second
  component is false) until it is validated.
\<close>

definition new_Blog :: "jsstring body \<Rightarrow> world \<Rightarrow> (blog \<times> bool) \<times> world" where
  "new_Blog b w =
    (let (t0, w1) = Date_now w;
         (t1, w2) = Date_now w1;
         (t2, w3) = Date_now w2;
         cast = castTags (body_tags b)
     in ((\<lparr>doc_id = nextId w, title = trim (body_title b), content = trim (body_content b),
           author = trim (body_author b),
           tags = (case cast of Some (Some ss) \<Rightarrow> ss | Some None \<Rightarrow> [] | None \<Rightarrow> []),
           createdAt = t1, updatedAt = t2\<rparr>, cast \<noteq> None),
         w3\<lparr>nextId := Suc (nextId w)\<rparr>))"

text \<open>
  The validators of the schema: \<^verbatim>\<open>required\<close>, and \<^verbatim>\<open>maxlength\<close>, which compares the
  number of code units.
\<close>

definition schema_valid :: "jsstring \<Rightarrow> jsstring \<Rightarrow> jsstring \<Rightarrow> bool" where
  "schema_valid t c a = (t \<noteq> [] \<and> length t \<le> 100 \<and> c \<noteq> [] \<and> a \<noteq> [] \<and> length a \<le> 50)"

text \<open>\<^verbatim>\<open>blogSchema.pre("save")\<close>: \<^verbatim>\<open>this.updatedAt = Date.now()\<close>.\<close>

definition pre_save :: "blog \<Rightarrow> world \<Rightarrow> blog \<times> world" where
  "pre_save d w = (let (t, w1) = Date_now w in (d\<lparr>updatedAt := t\<rparr>, w1))"

text \<open>The first document of the collection with identifier \<open>i\<close>.\<close>

definition findOne :: "nat \<Rightarrow> blog list \<Rightarrow> blog option" where
  "findOne i ds = find (\<lambda>d. doc_id d = i) ds"

text \<open>The insert: the database rejects it when it is unreachable or the identifier is taken.\<close>

definition insertOne :: "blog \<Rightarrow> world \<Rightarrow> (error + blog) \<times> world" where
  "insertOne d w =
    (let w1 = w\<lparr>trace := trace w @ [InsertOne d]\<rparr> in
     if \<not> up w then (Inl MongoError, w1)
     else if findOne (doc_id d) (docs w) \<noteq> None then (Inl MongoError, w1)
     else (Inr d, w1\<lparr>docs := docs w @ [d]\<rparr>))"

text \<open>
  \<^verbatim>\<open>blog.save()\<close>: validation (a failed cast and the validators of the schema), then the
  pre-save hook, then the insert. A document that fails validation is rejected before
  the hook runs.
\<close>

definition save :: "blog \<times> bool \<Rightarrow> world \<Rightarrow> (error + blog) \<times> world" where
  "save dc w =
    (let (d, castOk) = dc in
     if \<not> castOk \<or> \<not> schema_valid (title d) (content d) (author d) then (Inl ValidationError, w)
     else let (d1, w1) = pre_save d w in insertOne d1 w1)"

text \<open>
  \<^verbatim>\<open>Blog.find().sort({ createdAt: -1 })\<close>: the documents by \<^verbatim>\<open>createdAt\<close>, newest first.
\<close>

definition find_sorted :: "world \<Rightarrow> (error + blog list) \<times> world" where
  "find_sorted w =
    (let w1 = w\<lparr>trace := trace w @ [Find]\<rparr> in
     if \<not> up w then (Inl MongoError, w1)
     else (Inr (sort_key (\<lambda>d. - createdAt d) (docs w)), w1))"

text \<open>
  The identifier of a request is a string. \<open>cast\<close> is the storage layer's reading of it
  (\<open>None\<close> when the string is not a well-formed identifier); a query whose identifier
  does not cast is rejected with a \<^verbatim>\<open>CastError\<close> before anything is sent.
\<close>

definition findById :: "(string \<Rightarrow> nat option) \<Rightarrow> string \<Rightarrow> world \<Rightarrow> (error + blog option) \<times> world" where
  "findById cast s w =
    (case cast s of
       None \<Rightarrow> (Inl CastError, w)
     | Some i \<Rightarrow>
         (let w1 = w\<lparr>trace := trace w @ [FindOne i]\<rparr> in
          if \<not> up w then (Inl MongoError, w1)
          else (Inr (findOne i (docs w)), w1)))"

text \<open>The first document with identifier \<open>i\<close> is replaced by \<open>d'\<close>, or removed.\<close>

fun replace_first :: "nat \<Rightarrow> blog \<Rightarrow> blog list \<Rightarrow> blog list" where
  "replace_first i d' [] = []"
| "replace_first i d' (d # ds) = (if doc_id d = i then d' # ds else d # replace_first i d' ds)"

fun remove_first :: "nat \<Rightarrow> blog list \<Rightarrow> blog list" where
  "remove_first i [] = []"
| "remove_first i (d # ds) = (if doc_id d = i then ds else d # remove_first i ds)"

text \<open>
  The cast of the update \<^verbatim>\<open>{ title, content, author, tags }\<close>, to which the hook has
  added \<^verbatim>\<open>updatedAt\<close>: the string setters trim, a \<^verbatim>\<open>tags\<close> that is \<^verbatim>\<open>undefined\<close> is
  left out, and a value that does not cast raises a \<^verbatim>\<open>CastError\<close>.
\<close>

definition castUpdate :: "jsstring body \<Rightarrow> int \<Rightarrow> error + update" where
  "castUpdate u t =
    (case castTags (body_tags u) of
       None \<Rightarrow> Inl CastError
     | Some ts \<Rightarrow>
         Inr \<lparr>set_title = trim (body_title u), set_content = trim (body_content u),
              set_author = trim (body_author u), set_tags = ts, set_updatedAt = t\<rparr>)"

definition apply_update :: "update \<Rightarrow> blog \<Rightarrow> blog" where
  "apply_update u d =
    d\<lparr>title := set_title u, content := set_content u, author := set_author u,
      tags := (case set_tags u of None \<Rightarrow> tags d | Some ts \<Rightarrow> ts),
      updatedAt := set_updatedAt u\<rparr>"

text \<open>
  \<^verbatim>\<open>Blog.findByIdAndUpdate(id, update, { new: true, runValidators: true })\<close>. The hook
  \<^verbatim>\<open>blogSchema.pre("findOneAndUpdate")\<close> runs first and adds
  \<^verbatim>\<open>updatedAt: Date.now()\<close> to the update; then the identifier is cast, the update is
  cast, the update validators run, and the first matching document is modified and
  returned as modified.
\<close>

definition findByIdAndUpdate ::
  "(string \<Rightarrow> nat option) \<Rightarrow> string \<Rightarrow> jsstring body \<Rightarrow> world \<Rightarrow> (error + blog option) \<times> world" where
  "findByIdAndUpdate cast s u w =
    (let (t, w1) = Date_now w in
     case cast s of
       None \<Rightarrow> (Inl CastError, w1)
     | Some i \<Rightarrow>
         (case castUpdate u t of
            Inl e \<Rightarrow> (Inl e, w1)
          | Inr upd \<Rightarrow>
              if \<not> schema_valid (set_title upd) (set_content upd) (set_author upd)
              then (Inl ValidationError, w1)
              else
                (let w2 = w1\<lparr>trace := trace w1 @ [FindOneAndUpdate i upd]\<rparr> in
                 if \<not> up w then (Inl MongoError, w2)
                 else
                   (case findOne i (docs w) of
                      None \<Rightarrow> (Inr None, w2)
                    | Some d \<Rightarrow>
                        (let d' = apply_update upd d
                         in (Inr (Some d'), w2\<lparr>docs := replace_first i d' (docs w)\<rparr>))))))"

text \<open>\<^verbatim>\<open>Blog.findByIdAndDelete(id)\<close>: the first matching document is removed and returned.\<close>

definition findByIdAndDelete ::
  "(string \<Rightarrow> nat option) \<Rightarrow> string \<Rightarrow> world \<Rightarrow> (error + blog option) \<times> world" where
  "findByIdAndDelete cast s w =
    (case cast s of
       None \<Rightarrow> (Inl CastError, w)
     | Some i \<Rightarrow>
         (let w1 = w\<lparr>trace := trace w @ [FindOneAndDelete i]\<rparr> in
          if \<not> up w then (Inl MongoError, w1)
          else
            (case findOne i (docs w) of
               None \<Rightarrow> (Inr None, w1)
             | Some d \<Rightarrow> (Inr (Some d), w1\<lparr>docs := remove_first i (docs w)\<rparr>))))"

text \<open>
  Identifiers are drawn from a counter, so every stored identifier lies below it; then
  the next identifier is not in use.
\<close>

definition ids_below :: "world \<Rightarrow> bool" where
  "ids_below w = list_all (\<lambda>d. doc_id d < nextId w) (docs w)"

section \<open>The route handlers\<close>

text \<open>A response: the status code and the object given to \<^verbatim>\<open>res.json\<close>, key by key.\<close>

datatype jvalue =
  JBool bool | JNum nat | JStr string | JBlog blog | JBlogs "blog list" | JErrors "verror list"

record response =
  status :: nat
  json :: "(string \<times> jvalue) list"

definition res_json :: "nat \<Rightarrow> (string \<times> jvalue) list \<Rightarrow> response" where
  "res_json code obj = \<lparr>status = code, json = obj\<rparr>"

text \<open>\<^verbatim>\<open>router.get("/")\<close>\<close>

definition get_blogs :: "world \<Rightarrow> response \<times> world" where
  "get_blogs w =
    (case find_sorted w of
       (Inr blogs, w1) \<Rightarrow>
         (res_json 200 [(''success'', JBool True), (''count'', JNum (length blogs)),
                        (''data'', JBlogs blogs)], w1)
     | (Inl e, w1) \<Rightarrow>
         (res_json 500 [(''success'', JBool False), (''message'', JStr ''Error fetching blogs'')], w1))"

text \<open>\<^verbatim>\<open>router.get("/:id")\<close>\<close>

definition get_blog :: "(string \<Rightarrow> nat option) \<Rightarrow> world \<Rightarrow> string \<Rightarrow> response \<times> world" where
  "get_blog cast w s =
    (case findById cast s w of
       (Inr None, w1) \<Rightarrow>
         (res_json 404 [(''success'', JBool False), (''message'', JStr ''Blog not found'')], w1)
     | (Inr (Some d), w1) \<Rightarrow>
         (res_json 200 [(''success'', JBool True), (''data'', JBlog d)], w1)
     | (Inl e, w1) \<Rightarrow>
         (if e = CastError
          then (res_json 400 [(''success'', JBool False), (''message'', JStr ''Invalid blog ID'')], w1)
          else (res_json 500 [(''success'', JBool False), (''message'', JStr ''Error fetching blog'')], w1)))"

text \<open>\<^verbatim>\<open>router.post("/", validateBlog, ...)\<close>\<close>

definition post_blog :: "world \<Rightarrow> jsstring option body \<Rightarrow> response \<times> world" where
  "post_blog w raw =
    (let (b, errors) = validateBlog raw in
     if errors \<noteq> []
     then (res_json 400 [(''success'', JBool False), (''message'', JStr ''Validation failed''),
                         (''errors'', JErrors errors)], w)
     else
       (let (d, w1) = new_Blog (b\<lparr>body_tags := or_empty (body_tags b)\<rparr>) w in
        case save d w1 of
          (Inr savedBlog, w2) \<Rightarrow>
            (res_json 201 [(''success'', JBool True), (''message'', JStr ''Blog created successfully''),
                           (''data'', JBlog savedBlog)], w2)
        | (Inl e, w2) \<Rightarrow>
            (res_json 500 [(''success'', JBool False), (''message'', JStr ''Error creating blog'')], w2)))"

text \<open>\<^verbatim>\<open>router.put("/:id", validateBlog, ...)\<close>\<close>

definition put_blog ::
  "(string \<Rightarrow> nat option) \<Rightarrow> world \<Rightarrow> string \<Rightarrow> jsstring option body \<Rightarrow> response \<times> world" where
  "put_blog cast w s raw =
    (let (b, errors) = validateBlog raw in
     if errors \<noteq> []
     then (res_json 400 [(''success'', JBool False), (''message'', JStr ''Validation failed''),
                         (''errors'', JErrors errors)], w)
     else
       (case findByIdAndUpdate cast s (b\<lparr>body_tags := or_empty (body_tags b)\<rparr>) w of
          (Inr None, w1) \<Rightarrow>
            (res_json 404 [(''success'', JBool False), (''message'', JStr ''Blog not found'')], w1)
        | (Inr (Some d), w1) \<Rightarrow>
            (res_json 200 [(''success'', JBool True), (''message'', JStr ''Blog updated successfully''),
                           (''data'', JBlog d)], w1)
        | (Inl e, w1) \<Rightarrow>
            (if e = CastError
             then (res_json 400 [(''success'', JBool False), (''message'', JStr ''Invalid blog ID'')], w1)
             else (res_json 500 [(''success'', JBool False), (''message'', JStr ''Error updating blog'')], w1))))"

text \<open>\<^verbatim>\<open>router.delete("/:id")\<close>\<close>

definition delete_blog :: "(string \<Rightarrow> nat option) \<Rightarrow> world \<Rightarrow> string \<Rightarrow> response \<times> world" where
  "delete_blog cast w s =
    (case findByIdAndDelete cast s w of
       (Inr None, w1) \<Rightarrow>
         (res_json 404 [(''success'', JBool False), (''message'', JStr ''Blog not found'')], w1)
     | (Inr (Some d), w1) \<Rightarrow>
         (res_json 200 [(''success'', JBool True), (''message'', JStr ''Blog deleted successfully'')], w1)
     | (Inl e, w1) \<Rightarrow>
         (if e = CastError
          then (res_json 400 [(''success'', JBool False), (''message'', JStr ''Invalid blog ID'')], w1)
          else (res_json 500 [(''success'', JBool False), (''message'', JStr ''Error deleting blog'')], w1)))"

section \<open>The field rules\<close>

text \<open>
  The rules of the data model, as the specification words them: title, content and
  author are text, required and non-empty after trimming, title within 100 and author
  within 50 characters, counted as the schema counts them, in code units; tags, when
  present, is a sequence of text values. \<open>violated\<close> lists the fields of a request
  that break their rule, and a request is valid when no field does.
\<close>

definition text_ok :: "nat option \<Rightarrow> jsstring option \<Rightarrow> bool" where
  "text_ok bound v =
    (case v of None \<Rightarrow> False
     | Some s \<Rightarrow> trim s \<noteq> [] \<and> (case bound of None \<Rightarrow> True | Some n \<Rightarrow> length (trim s) \<le> n))"

definition isText :: "elem \<Rightarrow> bool" where
  "isText e = (case e of Text s \<Rightarrow> True | Object \<Rightarrow> False)"

definition field_ok :: "jsstring option body \<Rightarrow> string \<Rightarrow> bool" where
  "field_ok raw f =
    (if f = ''title'' then text_ok (Some 100) (body_title raw)
     else if f = ''content'' then text_ok None (body_content raw)
     else if f = ''author'' then text_ok (Some 50) (body_author raw)
     else if f = ''tags''
       then (case body_tags raw of Str s \<Rightarrow> False | Undefined \<Rightarrow> True | Arr xs \<Rightarrow> list_all isText xs)
     else True)"

definition field_names :: "string list" where
  "field_names = [''title'', ''content'', ''author'', ''tags'']"

definition violated :: "jsstring option body \<Rightarrow> string list" where
  "violated raw = filter (\<lambda>f. \<not> field_ok raw f) field_names"

definition valid_input :: "jsstring option body \<Rightarrow> bool" where
  "valid_input raw = (violated raw = [])"

text \<open>
  The rules that the validation chains check: the same for emptiness; the length limits
  in characters as the validator counts them; and of tags only that it is an array.
\<close>

definition text_checked :: "nat option \<Rightarrow> jsstring option \<Rightarrow> bool" where
  "text_checked bound v =
    (case v of None \<Rightarrow> False
     | Some s \<Rightarrow> trim s \<noteq> [] \<and> (case bound of None \<Rightarrow> True | Some n \<Rightarrow> characters (trim s) \<le> n))"

definition field_checked :: "jsstring option body \<Rightarrow> string \<Rightarrow> bool" where
  "field_checked raw f =
    (if f = ''title'' then text_checked (Some 100) (body_title raw)
     else if f = ''content'' then text_checked None (body_content raw)
     else if f = ''author'' then text_checked (Some 50) (body_author raw)
     else if f = ''tags''
       then (case body_tags raw of Str s \<Rightarrow> False | Undefined \<Rightarrow> True | Arr xs \<Rightarrow> True)
     else True)"

definition rejected :: "jsstring option body \<Rightarrow> string list" where
  "rejected raw = filter (\<lambda>f. \<not> field_checked raw f) field_names"

text \<open>
  The two sets of rules can differ only where the two counts do, or where tags holds an
  element that is not text. A request is plain when neither happens: in its trimmed title
  and author the validator counts every code unit, and its tags, when an array, holds text.
\<close>

definition plain :: "jsstring option body \<Rightarrow> bool" where
  "plain raw =
    (characters (trim (toString (body_title raw))) = length (trim (toString (body_title raw))) \<and>
     characters (trim (toString (body_author raw))) = length (trim (toString (body_author raw))) \<and>
     (case body_tags raw of Arr xs \<Rightarrow> list_all isText xs | Undefined \<Rightarrow> True | Str s \<Rightarrow> True))"

text \<open>
  What the schema accepts of a request that has passed the chains: text fields that
  pass its validators after the trim, and tags that cast.
\<close>

definition schema_accepts :: "jsstring option body \<Rightarrow> bool" where
  "schema_accepts raw =
    (schema_valid (trim (toString (body_title raw))) (trim (toString (body_content raw)))
       (trim (toString (body_author raw))) \<and>
     castTags (or_empty (body_tags raw)) \<noteq> None)"

text \<open>The strings of the elements of an array that are text.\<close>

fun texts :: "elem list \<Rightarrow> jsstring list" where
  "texts [] = []"
| "texts (Text s # es) = s # texts es"
| "texts (Object # es) = texts es"

text \<open>
  An identifier string is malformed when the storage layer cannot read it, and absent
  from a world when it is well formed and names no stored document.
\<close>

definition malformed :: "(string \<Rightarrow> nat option) \<Rightarrow> string \<Rightarrow> bool" where
  "malformed cast s = (cast s = None)"

definition absent :: "(string \<Rightarrow> nat option) \<Rightarrow> world \<Rightarrow> string \<Rightarrow> bool" where
  "absent cast w s = (case cast s of None \<Rightarrow> False | Some i \<Rightarrow> findOne i (docs w) = None)"

section \<open>Reading a response\<close>

definition success_of :: "response \<Rightarrow> jvalue option" where
  "success_of r = map_of (json r) ''success''"

definition message_of :: "response \<Rightarrow> jvalue option" where
  "message_of r = map_of (json r) ''message''"

definition data_of :: "response \<Rightarrow> blog option" where
  "data_of r = (case map_of (json r) ''data'' of Some (JBlog d) \<Rightarrow> Some d | _ \<Rightarrow> None)"

definition errors_of :: "response \<Rightarrow> verror list" where
  "errors_of r = (case map_of (json r) ''errors'' of Some (JErrors es) \<Rightarrow> es | _ \<Rightarrow> [])"

definition newest_first :: "blog list \<Rightarrow> bool" where
  "newest_first ds = sorted_wrt (\<lambda>a b. createdAt b \<le> createdAt a) ds"

text \<open>
  The envelope of a response: a boolean \<^verbatim>\<open>success\<close> that is true exactly when the
  status is 2xx, and a status among those the handlers send.
\<close>

definition envelope_ok :: "response \<Rightarrow> bool" where
  "envelope_ok r =
    (success_of r = Some (JBool (200 \<le> status r \<and> status r < 300)) \<and>
     status r \<in> set [200, 201, 400, 404, 500])"

section \<open>Example requests and worlds\<close>

text \<open>An empty collection, a reachable database and a clock that advances at every reading.\<close>

definition w_empty :: world where
  "w_empty = \<lparr>docs = [], nextId = 0, clock = (\<lambda>k. 1000 + int k), ticks = 0, up = True, trace = []\<rparr>"

text \<open>The same, with a clock that reads the same millisecond every time.\<close>

definition w_still :: world where
  "w_still = w_empty\<lparr>clock := (\<lambda>k. 1000)\<rparr>"

definition raw_hello :: "jsstring option body" where
  "raw_hello = \<lparr>body_title = Some (js ''  Hello ''), body_content = Some (js ''text ''),
                body_author = Some (js '' Ann''), body_tags = Undefined\<rparr>"

definition raw_tagged :: "jsstring option body" where
  "raw_tagged = \<lparr>body_title = Some (js ''Bye''), body_content = Some (js ''more''),
                 body_author = Some (js ''Bob''), body_tags = Arr [Text (js ''a ''), Text (js ''b'')]\<rparr>"

definition raw_padded :: "jsstring option body" where
  "raw_padded = \<lparr>body_title = Some (js '' New ''), body_content = Some (js ''fresh''),
                 body_author = Some (js ''Cy''), body_tags = Arr [Text (js ''x '')]\<rparr>"

text \<open>No title, a blank content, an author of 51 characters, and tags that are a string.\<close>

definition raw_bad :: "jsstring option body" where
  "raw_bad = \<lparr>body_title = None, body_content = Some (js ''   ''),
              body_author = Some (js ''xxxxxxxxxxxxxxxxxxxxxxxxxxxxxxxxxxxxxxxxxxxxxxxxxxx''),
              body_tags = Str (js ''news'')\<rparr>"

text \<open>No title, and tags that are an array holding an object.\<close>

definition raw_untitled :: "jsstring option body" where
  "raw_untitled = \<lparr>body_title = None, body_content = Some (js ''text''),
                   body_author = Some (js ''Ann''), body_tags = Arr [Object]\<rparr>"

text \<open>Text fields within their rules, and tags that are an array holding an object.\<close>

definition raw_object :: "jsstring option body" where
  "raw_object = \<lparr>body_title = Some (js ''Hello''), body_content = Some (js ''text''),
                 body_author = Some (js ''Ann''), body_tags = Arr [Object]\<rparr>"

text \<open>
  A string of \<open>n\<close> characters outside the basic plane, each the surrogate pair of
  U+1F600, and a request whose title is 60 of them: 60 characters for the validator,
  120 code units for the schema.
\<close>

definition astral :: "nat \<Rightarrow> jsstring" where
  "astral n = concat (replicate n [0xD83D, 0xDE00])"

definition raw_astral :: "jsstring option body" where
  "raw_astral = \<lparr>body_title = Some (astral 60), body_content = Some (js ''text''),
                 body_author = Some (js ''Ann''), body_tags = Undefined\<rparr>"

text \<open>A storage layer whose well-formed identifiers are \<open>b0\<close> and \<open>b1\<close>.\<close>

definition cast_ex :: "string \<Rightarrow> nat option" where
  "cast_ex s = (if s = ''b0'' then Some 0 else if s = ''b1'' then Some 1 else None)"

text \<open>The document that \<open>raw_hello\<close> creates while the clock stands still, and the world after.\<close>

definition doc_hello :: blog where
  "doc_hello = \<lparr>doc_id = 0, title = js ''Hello'', content = js ''text'', author = js ''Ann'', tags = [],
                createdAt = 1000, updatedAt = 1000\<rparr>"

definition w_hello :: world where
  "w_hello = w_still\<lparr>docs := [doc_hello], nextId := 1, ticks := 4, trace := [InsertOne doc_hello]\<rparr>"

text \<open>The same for \<open>raw_tagged\<close>.\<close>

definition doc_tagged :: blog where
  "doc_tagged = \<lparr>doc_id = 0, title = js ''Bye'', content = js ''more'', author = js ''Bob'',
                 tags = [js ''a'', js ''b''], createdAt = 1000, updatedAt = 1000\<rparr>"

definition w_tagged :: world where
  "w_tagged = w_still\<lparr>docs := [doc_tagged], nextId := 1, ticks := 4, trace := [InsertOne doc_tagged]\<rparr>"

text \<open>Three documents, stored in an order that is not the order of creation.\<close>

definition doc_a :: blog where
  "doc_a = \<lparr>doc_id = 0, title = js ''A'', content = js ''a'', author = js ''Ann'', tags = [],
            createdAt = 10, updatedAt = 10\<rparr>"

definition w_three :: world where
  "w_three = w_empty\<lparr>docs := [doc_a, doc_a\<lparr>doc_id := 1, createdAt := 30\<rparr>, doc_a\<lparr>doc_id := 2, createdAt := 20\<rparr>],
                 nextId := 3\<rparr>"

section \<open>Trimming\<close>

lemma trim_Nil: "trim [] = []"
  by (simp add: trim_def)

lemma dropWhile_id: "xs = [] \<or> \<not> P (hd xs) \<Longrightarrow> dropWhile P xs = xs"
  by (cases xs) auto

lemma strip_right_head:
  assumes "u = [] \<or> \<not> P (hd u)"
  shows "rev (dropWhile P (rev u)) = [] \<or> \<not> P (hd (rev (dropWhile P (rev u))))"
proof -
  let ?v = "rev (dropWhile P (rev u))"
  have split: "u = ?v @ rev (takeWhile P (rev u))"
    by (metis rev_append rev_rev_ident takeWhile_dropWhile_id)
  show ?thesis
  proof (cases "?v = []")
    case True
    then show ?thesis by simp
  next
    case False
    then have "hd u = hd ?v" using split by (metis hd_append2)
    moreover have "u \<noteq> []" using False by auto
    ultimately show ?thesis using assms by simp
  qed
qed

lemma dropWhile_head: "dropWhile P s = [] \<or> \<not> P (hd (dropWhile P s))"
  using hd_dropWhile by blast

lemma trim_idem: "trim (trim s) = trim s"
proof -
  have "dropWhile isSpace (trim s) = trim s"
    unfolding trim_def
    by (rule dropWhile_id, rule strip_right_head, rule dropWhile_head)
  then show ?thesis
    by (simp add: trim_def)
qed

section \<open>The two ways of counting\<close>

lemma characters_le_length: "characters s \<le> length s"
  by (simp add: characters_def)

lemma characters_Nil: "characters [] = 0"
  by (simp add: characters_def)

section \<open>Validation\<close>

lemma validateBlog_fst:
  "fst (validateBlog raw) =
     \<lparr>body_title = trim (toString (body_title raw)), body_content = trim (toString (body_content raw)),
      body_author = trim (toString (body_author raw)), body_tags = body_tags raw\<rparr>"
  by (simp add: validateBlog_def Let_def)

lemma text_checked_iff:
  "text_checked bound v \<longleftrightarrow>
     trim (toString v) \<noteq> [] \<and>
     (case bound of None \<Rightarrow> True | Some n \<Rightarrow> characters (trim (toString v)) \<le> n)"
  by (auto simp: text_checked_def toString_def trim_Nil split: option.splits)

lemma text_ok_iff:
  "text_ok bound v \<longleftrightarrow>
     trim (toString v) \<noteq> [] \<and> (case bound of None \<Rightarrow> True | Some n \<Rightarrow> length (trim (toString v)) \<le> n)"
  by (auto simp: text_ok_def toString_def trim_Nil split: option.splits)

text \<open>The fields named by the errors are the fields that break a rule the chains check.\<close>

lemma validateBlog_params: "remdups (map param (snd (validateBlog raw))) = rejected raw"
  by (cases "body_tags raw")
    (auto simp: validateBlog_def Let_def rejected_def field_names_def field_checked_def
      text_checked_iff check_def notEmpty_def isLength_max_def isArray_def characters_Nil)

lemma validateBlog_errors_iff: "snd (validateBlog raw) = [] \<longleftrightarrow> rejected raw = []"
proof -
  have "snd (validateBlog raw) = [] \<longleftrightarrow> remdups (map param (snd (validateBlog raw))) = []"
    by simp
  then show ?thesis by (simp add: validateBlog_params)
qed

lemma rejected_iff:
  "rejected raw = [] \<longleftrightarrow>
     text_checked (Some 100) (body_title raw) \<and> text_checked None (body_content raw) \<and>
     text_checked (Some 50) (body_author raw) \<and> (\<forall>s. body_tags raw \<noteq> Str s)"
  by (cases "body_tags raw") (auto simp: rejected_def field_names_def field_checked_def)

lemma valid_input_iff:
  "valid_input raw \<longleftrightarrow>
     text_ok (Some 100) (body_title raw) \<and> text_ok None (body_content raw) \<and>
     text_ok (Some 50) (body_author raw) \<and>
     (case body_tags raw of Str s \<Rightarrow> False | Undefined \<Rightarrow> True | Arr xs \<Rightarrow> list_all isText xs)"
  by (cases "body_tags raw") (auto simp: valid_input_def violated_def field_names_def field_ok_def)

text \<open>A field that breaks a rule the chains check breaks its rule of the data model.\<close>

lemma text_ok_checked: "text_ok bound v \<Longrightarrow> text_checked bound v"
  using characters_le_length [of "trim (toString v)"]
  by (auto simp: text_ok_iff text_checked_iff split: option.splits)

lemma field_ok_checked: "field_ok raw f \<Longrightarrow> field_checked raw f"
  by (auto simp: field_ok_def field_checked_def text_ok_checked split: if_splits jsval.splits)

lemma rejected_subset_violated: "set (rejected raw) \<subseteq> set (violated raw)"
  using field_ok_checked by (auto simp: rejected_def violated_def)

lemma valid_input_passes: "valid_input raw \<Longrightarrow> rejected raw = []"
  using rejected_subset_violated [of raw] by (simp add: valid_input_def)

section \<open>The casts of the schema\<close>

lemma castArray_eq:
  "castArray es = (if list_all isText es then Some (map trim (texts es)) else None)"
proof (induction es)
  case Nil
  show ?case by simp
next
  case (Cons e es)
  then show ?case by (cases e) (simp_all add: isText_def)
qed

lemma castArray_Some: "castArray es = Some ss \<longleftrightarrow> list_all isText es \<and> ss = map trim (texts es)"
  by (auto simp: castArray_eq)

lemma texts_all: "list_all isText es \<Longrightarrow> es = map Text (texts es)"
proof (induction es)
  case Nil
  show ?case by simp
next
  case (Cons e es)
  then show ?case by (cases e) (simp_all add: isText_def)
qed

text \<open>The tags a request stores, once it has passed the chains and its tags cast.\<close>

lemma stored_tags:
  assumes "rejected raw = []" and "castTags (or_empty (body_tags raw)) \<noteq> None"
  shows "castTags (or_empty (body_tags raw)) =
           Some (Some (case body_tags raw of Arr xs \<Rightarrow> map trim (texts xs) | Undefined \<Rightarrow> [] | Str x \<Rightarrow> []))"
    and "\<forall>xs. body_tags raw = Arr xs \<longrightarrow> xs = map Text (texts xs)"
proof -
  show "castTags (or_empty (body_tags raw)) =
           Some (Some (case body_tags raw of Arr xs \<Rightarrow> map trim (texts xs) | Undefined \<Rightarrow> [] | Str x \<Rightarrow> []))"
  proof (cases "body_tags raw")
    case Undefined
    then show ?thesis by (simp add: castTags_def or_empty_def)
  next
    case (Str s)
    with assms(1) show ?thesis by (simp add: rejected_iff)
  next
    case (Arr xs)
    with assms(2) obtain ss where "castArray xs = Some ss"
      by (auto simp: castTags_def or_empty_def split: option.splits)
    then show ?thesis
      using Arr by (simp add: castTags_def or_empty_def castArray_eq split: if_splits)
  qed
  show "\<forall>xs. body_tags raw = Arr xs \<longrightarrow> xs = map Text (texts xs)"
  proof (intro allI impI)
    fix xs assume Arr: "body_tags raw = Arr xs"
    with assms(2) obtain ss where "castArray xs = Some ss"
      by (auto simp: castTags_def or_empty_def split: option.splits)
    then show "xs = map Text (texts xs)"
      by (simp add: castArray_Some texts_all)
  qed
qed

text \<open>A valid request passes the chains and is accepted by the schema.\<close>

lemma valid_input_accepted:
  assumes "valid_input raw"
  shows "schema_accepts raw"
proof -
  have "schema_valid (trim (toString (body_title raw))) (trim (toString (body_content raw)))
          (trim (toString (body_author raw)))"
    using assms by (simp add: valid_input_iff text_ok_iff schema_valid_def)
  moreover have "castTags (or_empty (body_tags raw)) \<noteq> None"
  proof (cases "body_tags raw")
    case (Arr xs)
    with assms have "list_all isText xs" by (simp add: valid_input_iff)
    then have "castArray xs = Some (map trim (texts xs))" by (simp add: castArray_Some)
    then show ?thesis using Arr by (simp add: castTags_def or_empty_def)
  qed (simp_all add: castTags_def or_empty_def)
  ultimately show ?thesis by (simp add: schema_accepts_def)
qed

section \<open>The storage layer and the handlers, case by case\<close>

lemma findOne_Nil: "findOne i [] = None"
  by (simp add: findOne_def)

lemma findOne_Cons: "findOne i (d # ds) = (if doc_id d = i then Some d else findOne i ds)"
  by (simp add: findOne_def)

lemma findOne_append:
  "findOne i (xs @ ys) = (case findOne i xs of None \<Rightarrow> findOne i ys | Some d \<Rightarrow> Some d)"
  by (induction xs) (simp_all add: findOne_Nil findOne_Cons)

lemma findOne_doc_id: "findOne i ds = Some d \<Longrightarrow> doc_id d = i"
  by (induction ds) (simp_all add: findOne_Nil findOne_Cons split: if_splits)

lemma findOne_replace_first:
  "doc_id d' = i \<Longrightarrow>
   findOne j (replace_first i d' ds) =
     (if j = i then map_option (\<lambda>d. d') (findOne i ds) else findOne j ds)"
  by (induction ds) (auto simp: findOne_Nil findOne_Cons)

lemma length_replace_first: "length (replace_first i d' ds) = length ds"
  by (induction ds) simp_all

lemma post_blog_rejected:
  assumes "rejected raw \<noteq> []"
  shows "post_blog w raw =
    (res_json 400 [(''success'', JBool False), (''message'', JStr ''Validation failed''),
                   (''errors'', JErrors (snd (validateBlog raw)))], w)"
  using assms by (simp add: post_blog_def validateBlog_errors_iff [symmetric] case_prod_beta)

lemma put_blog_rejected:
  assumes "rejected raw \<noteq> []"
  shows "put_blog cast w s raw =
    (res_json 400 [(''success'', JBool False), (''message'', JStr ''Validation failed''),
                   (''errors'', JErrors (snd (validateBlog raw)))], w)"
  using assms by (simp add: put_blog_def validateBlog_errors_iff [symmetric] case_prod_beta)

text \<open>
  A request that has passed the chains and that the schema refuses is answered 500 by
  create: the clock has been read three times and nothing was sent to the database.
\<close>

lemma post_blog_refused:
  assumes "rejected raw = []" and "\<not> schema_accepts raw"
  shows "post_blog w raw =
    (res_json 500 [(''success'', JBool False), (''message'', JStr ''Error creating blog'')],
     w\<lparr>ticks := ticks w + 3, nextId := Suc (nextId w)\<rparr>)"
proof -
  obtain b es where v: "validateBlog raw = (b, es)" by (cases "validateBlog raw")
  have es: "es = []" using assms(1) v validateBlog_errors_iff [of raw] by simp
  have b: "b = \<lparr>body_title = trim (toString (body_title raw)), body_content = trim (toString (body_content raw)),
      body_author = trim (toString (body_author raw)), body_tags = body_tags raw\<rparr>"
    using validateBlog_fst [of raw] v by simp
  show ?thesis
    using assms(2)
    by (auto simp: post_blog_def v es b new_Blog_def Date_now_def save_def Let_def trim_idem
        schema_accepts_def)
qed

lemma post_blog_accepted:
  assumes "rejected raw = []" and "schema_accepts raw"
  shows "post_blog w raw =
    (let d = \<lparr>doc_id = nextId w, title = trim (toString (body_title raw)),
               content = trim (toString (body_content raw)), author = trim (toString (body_author raw)),
               tags = (case body_tags raw of Arr xs \<Rightarrow> map trim (texts xs) | Undefined \<Rightarrow> [] | Str x \<Rightarrow> []),
               createdAt = clock w (ticks w + 1), updatedAt = clock w (ticks w + 3)\<rparr>;
         w1 = w\<lparr>nextId := Suc (nextId w), ticks := ticks w + 4, trace := trace w @ [InsertOne d]\<rparr>
     in if up w \<and> findOne (nextId w) (docs w) = None
        then (res_json 201 [(''success'', JBool True), (''message'', JStr ''Blog created successfully''),
                            (''data'', JBlog d)], w1\<lparr>docs := docs w @ [d]\<rparr>)
        else (res_json 500 [(''success'', JBool False), (''message'', JStr ''Error creating blog'')], w1))"
proof -
  obtain b es where v: "validateBlog raw = (b, es)" by (cases "validateBlog raw")
  have es: "es = []" using assms(1) v validateBlog_errors_iff [of raw] by simp
  have b: "b = \<lparr>body_title = trim (toString (body_title raw)), body_content = trim (toString (body_content raw)),
      body_author = trim (toString (body_author raw)), body_tags = body_tags raw\<rparr>"
    using validateBlog_fst [of raw] v by simp
  from assms(2) have sv: "schema_valid (trim (toString (body_title raw)))
      (trim (toString (body_content raw))) (trim (toString (body_author raw)))"
    and c: "castTags (or_empty (body_tags raw)) \<noteq> None"
    by (simp_all add: schema_accepts_def)
  note t = stored_tags(1) [OF assms(1) c]
  have n: "ticks w + 1 = Suc (ticks w)" "ticks w + 3 = Suc (Suc (Suc (ticks w)))"
    "ticks w + 4 = Suc (Suc (Suc (Suc (ticks w))))"
    by simp_all
  show ?thesis
    using sv
    by (simp add: post_blog_def v es b new_Blog_def Date_now_def save_def pre_save_def insertOne_def
        Let_def trim_idem t n)
qed

lemma post_blog_201:
  "status (fst (post_blog w raw)) = 201 \<longleftrightarrow>
     rejected raw = [] \<and> schema_accepts raw \<and> up w \<and> findOne (nextId w) (docs w) = None"
proof (cases "rejected raw = []")
  case True
  then show ?thesis
    by (cases "schema_accepts raw")
      (simp_all add: post_blog_accepted post_blog_refused Let_def res_json_def)
next
  case False
  then show ?thesis by (simp add: post_blog_rejected res_json_def)
qed

text \<open>
  An update that has passed the chains: the hook has read the clock; then the
  identifier, the cast of the update, the update validators and the database decide.
\<close>

lemma put_blog_passed:
  assumes "rejected raw = []"
  shows "put_blog cast w s raw =
    (case cast s of
       None \<Rightarrow> (res_json 400 [(''success'', JBool False), (''message'', JStr ''Invalid blog ID'')],
                w\<lparr>ticks := Suc (ticks w)\<rparr>)
     | Some i \<Rightarrow>
         if castTags (or_empty (body_tags raw)) = None
         then (res_json 400 [(''success'', JBool False), (''message'', JStr ''Invalid blog ID'')],
               w\<lparr>ticks := Suc (ticks w)\<rparr>)
         else if \<not> schema_valid (trim (toString (body_title raw))) (trim (toString (body_content raw)))
                   (trim (toString (body_author raw)))
         then (res_json 500 [(''success'', JBool False), (''message'', JStr ''Error updating blog'')],
               w\<lparr>ticks := Suc (ticks w)\<rparr>)
         else
           (let upd = \<lparr>set_title = trim (toString (body_title raw)),
                       set_content = trim (toString (body_content raw)),
                       set_author = trim (toString (body_author raw)),
                       set_tags = Some (case body_tags raw of Arr xs \<Rightarrow> map trim (texts xs)
                                        | Undefined \<Rightarrow> [] | Str x \<Rightarrow> []),
                       set_updatedAt = clock w (ticks w)\<rparr>;
                w2 = w\<lparr>ticks := Suc (ticks w), trace := trace w @ [FindOneAndUpdate i upd]\<rparr> in
            if \<not> up w
            then (res_json 500 [(''success'', JBool False), (''message'', JStr ''Error updating blog'')], w2)
            else
              (case findOne i (docs w) of
                 None \<Rightarrow> (res_json 404 [(''success'', JBool False), (''message'', JStr ''Blog not found'')], w2)
               | Some d \<Rightarrow>
                   (res_json 200 [(''success'', JBool True), (''message'', JStr ''Blog updated successfully''),
                                  (''data'', JBlog (apply_update upd d))],
                    w2\<lparr>docs := replace_first i (apply_update upd d) (docs w)\<rparr>))))"
proof -
  obtain b es where v: "validateBlog raw = (b, es)" by (cases "validateBlog raw")
  have es: "es = []" using assms v validateBlog_errors_iff [of raw] by simp
  have b: "b = \<lparr>body_title = trim (toString (body_title raw)), body_content = trim (toString (body_content raw)),
      body_author = trim (toString (body_author raw)), body_tags = body_tags raw\<rparr>"
    using validateBlog_fst [of raw] v by simp
  show ?thesis
  proof (cases "castTags (or_empty (body_tags raw)) = None")
    case True
    then show ?thesis
      by (simp add: put_blog_def v es b findByIdAndUpdate_def castUpdate_def Date_now_def Let_def
          split: option.splits)
  next
    case False
    note t = stored_tags(1) [OF assms False]
    show ?thesis
      by (simp add: put_blog_def v es b findByIdAndUpdate_def castUpdate_def Date_now_def Let_def
          trim_idem t split: option.splits)
  qed
qed

lemma put_blog_200:
  "status (fst (put_blog cast w s raw)) = 200 \<longleftrightarrow>
     rejected raw = [] \<and> schema_accepts raw \<and> up w \<and>
     (\<exists>i d. cast s = Some i \<and> findOne i (docs w) = Some d)"
proof (cases "rejected raw = []")
  case True
  then show ?thesis
    by (auto simp: put_blog_passed Let_def res_json_def schema_accepts_def split: option.splits)
next
  case False
  then show ?thesis by (simp add: put_blog_rejected res_json_def)
qed

lemma passed_fields:
  assumes "rejected raw = []"
  shows "\<exists>t c a. body_title raw = Some t \<and> body_content raw = Some c \<and> body_author raw = Some a"
  using assms by (auto simp: rejected_iff text_checked_def split: option.splits)

text \<open>A successful update, spelt out.\<close>

lemma put_blog_updated:
  assumes "status (fst (put_blog cast w s raw)) = 200"
  shows "\<exists>i d d' t c a u.
      cast s = Some i \<and> findOne i (docs w) = Some d \<and>
      body_title raw = Some t \<and> body_content raw = Some c \<and> body_author raw = Some a \<and>
      (\<forall>xs. body_tags raw = Arr xs \<longrightarrow> xs = map Text (texts xs)) \<and>
      d' = d\<lparr>title := trim t, content := trim c, author := trim a,
             tags := (case body_tags raw of Arr xs \<Rightarrow> map trim (texts xs) | Undefined \<Rightarrow> [] | Str x \<Rightarrow> []),
             updatedAt := clock w (ticks w)\<rparr> \<and>
      data_of (fst (put_blog cast w s raw)) = Some d' \<and>
      docs (snd (put_blog cast w s raw)) = replace_first i d' (docs w) \<and>
      findOne i (docs (snd (put_blog cast w s raw))) = Some d' \<and>
      trace (snd (put_blog cast w s raw)) = trace w @ [FindOneAndUpdate i u] \<and>
      set_tags u = Some (tags d')"
proof -
  from assms have v: "rejected raw = []" and acc: "schema_accepts raw" and u: "up w"
    and "\<exists>i d. cast s = Some i \<and> findOne i (docs w) = Some d"
    by (simp_all add: put_blog_200)
  then obtain i d where c: "cast s = Some i" and f: "findOne i (docs w) = Some d"
    by blast
  from passed_fields [OF v] obtain t c a where
    raw: "body_title raw = Some t" "body_content raw = Some c" "body_author raw = Some a"
    by blast
  from acc have sv: "schema_valid (trim (toString (body_title raw)))
      (trim (toString (body_content raw))) (trim (toString (body_author raw)))"
    and ct: "castTags (or_empty (body_tags raw)) \<noteq> None"
    by (simp_all add: schema_accepts_def)
  let ?ts = "case body_tags raw of Arr xs \<Rightarrow> map trim (texts xs) | Undefined \<Rightarrow> [] | Str x \<Rightarrow> []"
  let ?u = "\<lparr>set_title = trim t, set_content = trim c, set_author = trim a,
             set_tags = Some ?ts, set_updatedAt = clock w (ticks w)\<rparr>"
  let ?d' = "d\<lparr>title := trim t, content := trim c, author := trim a, tags := ?ts,
               updatedAt := clock w (ticks w)\<rparr>"
  have id: "doc_id ?d' = i" using findOne_doc_id [OF f] by simp
  have p: "put_blog cast w s raw =
      (res_json 200 [(''success'', JBool True), (''message'', JStr ''Blog updated successfully''),
                     (''data'', JBlog ?d')],
       w\<lparr>ticks := Suc (ticks w), trace := trace w @ [FindOneAndUpdate i ?u],
         docs := replace_first i ?d' (docs w)\<rparr>)"
    using u c f raw sv stored_tags(1) [OF v ct]
    by (simp add: put_blog_passed [OF v] Let_def toString_def apply_update_def)
  have "data_of (fst (put_blog cast w s raw)) = Some ?d'"
    by (simp add: p data_of_def res_json_def)
  moreover have "docs (snd (put_blog cast w s raw)) = replace_first i ?d' (docs w)"
    by (simp add: p)
  moreover have "findOne i (replace_first i ?d' (docs w)) = Some ?d'"
    using f by (simp add: findOne_replace_first [OF id])
  moreover have "trace (snd (put_blog cast w s raw)) = trace w @ [FindOneAndUpdate i ?u]"
    by (simp add: p)
  ultimately show ?thesis
    using c f raw stored_tags(2) [OF v ct]
    by (intro exI [of _ i] exI [of _ d] exI [of _ ?d'] exI [of _ t] exI [of _ c] exI [of _ a]
        exI [of _ ?u]) simp
qed

lemma get_blog_found:
  assumes "cast s = Some i" and "up w" and "findOne i (docs w) = Some d"
  shows "fst (get_blog cast w s) = res_json 200 [(''success'', JBool True), (''data'', JBlog d)]"
  using assms by (simp add: get_blog_def findById_def Let_def)

lemma newest_first_sort: "newest_first (sort_key (\<lambda>d. - createdAt d) ds)"
proof -
  have "sorted (map (\<lambda>d. - createdAt d) (sort_key (\<lambda>d. - createdAt d) ds))"
    by (rule sorted_sort_key)
  then show ?thesis
    by (simp add: newest_first_def sorted_map sorted_wrt_map)
qed

lemma envelope_ok_get_blogs: "envelope_ok (fst (get_blogs w))"
  by (simp add: get_blogs_def find_sorted_def Let_def envelope_ok_def success_of_def res_json_def)

lemma envelope_ok_get_blog: "envelope_ok (fst (get_blog cast w s))"
  by (simp add: get_blog_def findById_def Let_def envelope_ok_def success_of_def res_json_def
      split: option.splits)

lemma envelope_ok_delete_blog: "envelope_ok (fst (delete_blog cast w s))"
  by (simp add: delete_blog_def findByIdAndDelete_def Let_def envelope_ok_def success_of_def res_json_def
      split: option.splits)

lemma envelope_ok_post_blog: "envelope_ok (fst (post_blog w raw))"
proof (cases "rejected raw = []")
  case True
  then show ?thesis
    by (cases "schema_accepts raw")
      (simp_all add: post_blog_accepted post_blog_refused Let_def envelope_ok_def success_of_def
        res_json_def)
next
  case False
  then show ?thesis
    by (simp add: post_blog_rejected envelope_ok_def success_of_def res_json_def)
qed

lemma envelope_ok_put_blog: "envelope_ok (fst (put_blog cast w s raw))"
proof (cases "rejected raw = []")
  case True
  then show ?thesis
    by (simp add: put_blog_passed Let_def envelope_ok_def success_of_def res_json_def
        split: option.splits)
next
  case False
  then show ?thesis
    by (simp add: put_blog_rejected envelope_ok_def success_of_def res_json_def)
qed

section \<open>Identifiers stay fresh\<close>

lemma ids_below_fresh:
  assumes "ids_below w"
  shows "findOne (nextId w) (docs w) = None"
proof (cases "findOne (nextId w) (docs w)")
  case None
  then show ?thesis .
next
  case (Some d)
  then have "d \<in> set (docs w)" and "doc_id d = nextId w"
    by (auto simp: findOne_def find_Some_iff)
  with assms show ?thesis by (auto simp: ids_below_def list_all_iff)
qed

lemma set_replace_first: "set (replace_first i d' ds) \<subseteq> insert d' (set ds)"
  by (induction ds) auto

lemma set_remove_first: "set (remove_first i ds) \<subseteq> set ds"
  by (induction ds) auto

lemma ids_below_post_blog:
  assumes "ids_below w"
  shows "ids_below (snd (post_blog w raw))"
proof -
  have up1: "list_all (\<lambda>d. doc_id d < Suc (nextId w)) (docs w)"
    using assms by (auto simp: ids_below_def list_all_iff)
  show ?thesis
  proof (cases "rejected raw = []")
    case True
    then show ?thesis
      using up1
      by (cases "schema_accepts raw")
        (simp_all add: post_blog_accepted post_blog_refused Let_def ids_below_def)
  next
    case False
    with assms show ?thesis by (simp add: post_blog_rejected)
  qed
qed

lemma ids_below_put_blog:
  assumes "ids_below w"
  shows "ids_below (snd (put_blog cast w s raw))"
proof (cases "rejected raw = []")
  case True
  have "list_all (\<lambda>x. doc_id x < nextId w) (replace_first i d' (docs w))"
    if "doc_id d' < nextId w" for i d'
    using assms that set_replace_first [of i d' "docs w"]
    by (auto simp: ids_below_def list_all_iff)
  moreover have "doc_id d < nextId w" if "findOne i (docs w) = Some d" for i d
    using assms that by (auto simp: ids_below_def list_all_iff findOne_def find_Some_iff)
  ultimately show ?thesis
    using True assms
    by (auto simp: put_blog_passed Let_def ids_below_def apply_update_def split: option.splits)
next
  case False
  with assms show ?thesis by (simp add: put_blog_rejected)
qed

lemma ids_below_delete_blog:
  assumes "ids_below w"
  shows "ids_below (snd (delete_blog cast w s))"
proof -
  have "list_all (\<lambda>x. doc_id x < nextId w) (remove_first i (docs w))" for i
    using assms set_remove_first [of i "docs w"] by (auto simp: ids_below_def list_all_iff)
  then show ?thesis
    using assms
    by (auto simp: delete_blog_def findByIdAndDelete_def Let_def ids_below_def split: option.splits)
qed

lemma ids_below_empty: "ids_below w_empty"
  by (simp add: ids_below_def w_empty_def)

section \<open>Characters outside the basic plane\<close>

lemma astral_Suc: "astral (Suc n) = 0xD83D # 0xDE00 # astral n"
  by (simp add: astral_def)

lemma astral_snoc: "astral (Suc n) = astral n @ [0xD83D, 0xDE00]"
  unfolding astral_def by (induction n) simp_all

lemma length_astral: "length (astral n) = 2 * n"
  by (induction n) (simp_all add: astral_Suc, simp add: astral_def)

lemma surrogatePairs_astral: "surrogatePairs (astral n) = n"
  by (induction n) (simp_all add: astral_Suc isHigh_def isLow_def, simp add: astral_def)

lemma presentationSequences_astral: "presentationSequences (astral n) = 0"
  by (induction n) (simp_all add: astral_Suc presentationSequences_def, simp add: astral_def)

lemma characters_astral: "characters (astral n) = n"
  by (simp add: characters_def length_astral surrogatePairs_astral presentationSequences_astral)

lemma trim_astral: "trim (astral n) = astral n"
proof (cases n)
  case 0
  then show ?thesis by (simp add: astral_def trim_def)
next
  case (Suc m)
  have "dropWhile isSpace (astral (Suc m)) = astral (Suc m)"
    by (simp add: astral_Suc isSpace_def)
  moreover have "dropWhile isSpace (rev (astral (Suc m))) = rev (astral (Suc m))"
    by (simp add: astral_snoc isSpace_def)
  ultimately show ?thesis using Suc by (simp add: trim_def)
qed

section \<open>The examples, evaluated\<close>

lemmas example_defs =
  w_empty_def w_still_def w_hello_def doc_hello_def raw_hello_def raw_tagged_def cast_ex_def
  raw_padded_def doc_tagged_def w_tagged_def raw_untitled_def raw_object_def

lemmas eval_defs =
  findOne_def toString_def trim_def isSpace_def js_def res_json_def
  data_of_def errors_of_def success_of_def message_of_def

lemma valid_raw_hello: "valid_input raw_hello"
  by (simp add: valid_input_iff text_ok_def raw_hello_def trim_def isSpace_def js_def)

lemma valid_raw_tagged: "valid_input raw_tagged"
  by (simp add: valid_input_iff text_ok_def raw_tagged_def trim_def isSpace_def js_def isText_def)

lemma valid_raw_padded: "valid_input raw_padded"
  by (simp add: valid_input_iff text_ok_def raw_padded_def trim_def isSpace_def js_def isText_def)

lemma post_blog_valid:
  assumes "valid_input raw"
  shows "post_blog w raw =
    (let d = \<lparr>doc_id = nextId w, title = trim (toString (body_title raw)),
               content = trim (toString (body_content raw)), author = trim (toString (body_author raw)),
               tags = (case body_tags raw of Arr xs \<Rightarrow> map trim (texts xs) | Undefined \<Rightarrow> [] | Str x \<Rightarrow> []),
               createdAt = clock w (ticks w + 1), updatedAt = clock w (ticks w + 3)\<rparr>;
         w1 = w\<lparr>nextId := Suc (nextId w), ticks := ticks w + 4, trace := trace w @ [InsertOne d]\<rparr>
     in if up w \<and> findOne (nextId w) (docs w) = None
        then (res_json 201 [(''success'', JBool True), (''message'', JStr ''Blog created successfully''),
                            (''data'', JBlog d)], w1\<lparr>docs := docs w @ [d]\<rparr>)
        else (res_json 500 [(''success'', JBool False), (''message'', JStr ''Error creating blog'')], w1))"
  using valid_input_passes [OF assms] valid_input_accepted [OF assms] by (rule post_blog_accepted)

lemma validateBlog_raw_bad:
  "snd (validateBlog raw_bad) =
     [\<lparr>param = ''title'', msg = ''Title is required''\<rparr>,
      \<lparr>param = ''content'', msg = ''Content is required''\<rparr>,
      \<lparr>param = ''author'', msg = ''Author name cannot exceed 50 characters''\<rparr>,
      \<lparr>param = ''tags'', msg = ''Tags must be an array''\<rparr>]"
  by (simp add: validateBlog_def raw_bad_def toString_def trim_def isSpace_def js_def check_def
      notEmpty_def isLength_max_def isArray_def characters_def presentationSequences_def
      isHigh_def isLow_def)

lemma rejected_raw_bad: "rejected raw_bad = [''title'', ''content'', ''author'', ''tags'']"
  using validateBlog_params [of raw_bad] by (simp add: validateBlog_raw_bad)

lemma post_hello_ticking:
  "post_blog w_empty raw_hello =
     (res_json 201 [(''success'', JBool True), (''message'', JStr ''Blog created successfully''),
                    (''data'', JBlog (doc_hello\<lparr>createdAt := 1001, updatedAt := 1003\<rparr>))],
      w_empty\<lparr>docs := [doc_hello\<lparr>createdAt := 1001, updatedAt := 1003\<rparr>], nextId := 1, ticks := 4,
        trace := [InsertOne (doc_hello\<lparr>createdAt := 1001, updatedAt := 1003\<rparr>)]\<rparr>)"
  by (simp add: post_blog_valid valid_raw_hello) (simp add: example_defs eval_defs Let_def)

lemma post_hello_still:
  "post_blog w_still raw_hello =
     (res_json 201 [(''success'', JBool True), (''message'', JStr ''Blog created successfully''),
                    (''data'', JBlog doc_hello)], w_hello)"
  by (simp add: post_blog_valid valid_raw_hello) (simp add: example_defs eval_defs Let_def)

lemma post_tagged_still:
  "post_blog w_still raw_tagged =
     (res_json 201 [(''success'', JBool True), (''message'', JStr ''Blog created successfully''),
                    (''data'', JBlog doc_tagged)], w_tagged)"
  by (simp add: post_blog_valid valid_raw_tagged) (simp add: example_defs eval_defs Let_def)

section \<open>The two sets of rules\<close>

lemma characters_bound: "length s \<le> n \<Longrightarrow> characters s \<le> n"
  using characters_le_length [of s] by simp

lemma plain_rejected: "plain raw \<Longrightarrow> rejected raw = violated raw"
  by (cases "body_tags raw")
    (auto simp: plain_def rejected_def violated_def field_names_def field_ok_def field_checked_def
      text_ok_iff text_checked_iff)

section \<open>Requests that pass the chains and that the schema refuses\<close>

lemma raw_astral_passes: "rejected raw_astral = []"
  by (simp add: rejected_iff text_checked_def raw_astral_def trim_astral characters_astral)
    (simp add: trim_def isSpace_def js_def astral_def characters_bound)

lemma raw_astral_refused: "\<not> schema_accepts raw_astral"
  by (simp add: schema_accepts_def schema_valid_def raw_astral_def toString_def trim_astral
      length_astral)

lemma raw_object_passes: "rejected raw_object = []"
  by (simp add: rejected_iff text_checked_def raw_object_def trim_def isSpace_def js_def
      characters_bound)

lemma raw_object_refused: "\<not> schema_accepts raw_object"
  by (simp add: schema_accepts_def raw_object_def castTags_def or_empty_def)

text \<open>
  A title of 60 characters outside the basic plane passes the chains; the schema counts
  120 code units and refuses it. Create answers 500, and so does an update, also of an
  identifier that names no document.
\<close>

lemma post_astral:
  "fst (post_blog w raw_astral) =
     res_json 500 [(''success'', JBool False), (''message'', JStr ''Error creating blog'')]"
  by (simp add: post_blog_refused [OF raw_astral_passes raw_astral_refused])

lemma put_astral:
  "fst (put_blog cast_ex w ''b1'' raw_astral) =
     res_json 500 [(''success'', JBool False), (''message'', JStr ''Error updating blog'')]"
  by (simp add: put_blog_passed [OF raw_astral_passes])
    (simp add: cast_ex_def raw_astral_def castTags_def or_empty_def schema_valid_def toString_def
      trim_astral length_astral)

text \<open>
  Tags that hold an object pass the chains and do not cast. Create answers 500; an update
  answers 400 \<^verbatim>\<open>Invalid blog ID\<close>, whatever the identifier, since the handler reads every
  \<^verbatim>\<open>CastError\<close> as one of the identifier.
\<close>

lemma post_object:
  "fst (post_blog w raw_object) =
     res_json 500 [(''success'', JBool False), (''message'', JStr ''Error creating blog'')]"
  by (simp add: post_blog_refused [OF raw_object_passes raw_object_refused])

lemma put_object:
  "fst (put_blog cast w s raw_object) =
     res_json 400 [(''success'', JBool False), (''message'', JStr ''Invalid blog ID'')]"
  by (simp add: put_blog_passed [OF raw_object_passes] split: option.splits)
    (simp add: raw_object_def castTags_def or_empty_def)

lemma put_padded:
  "put_blog cast_ex w_hello ''b0'' raw_padded =
     (res_json 200 [(''success'', JBool True), (''message'', JStr ''Blog updated successfully''),
        (''data'', JBlog (doc_hello\<lparr>title := js ''New'', content := js ''fresh'', author := js ''Cy'',
                                  tags := [js ''x'']\<rparr>))],
      w_hello\<lparr>ticks := 5,
        trace := [InsertOne doc_hello,
                  FindOneAndUpdate 0 \<lparr>set_title = js ''New'', set_content = js ''fresh'',
                    set_author = js ''Cy'', set_tags = Some [js ''x''], set_updatedAt = 1000\<rparr>],
        docs := [doc_hello\<lparr>title := js ''New'', content := js ''fresh'', author := js ''Cy'',
                           tags := [js ''x'']\<rparr>]\<rparr>)"
  by (simp add: put_blog_passed valid_input_passes valid_raw_padded)
    (simp add: example_defs eval_defs Let_def castTags_def or_empty_def schema_valid_def
      apply_update_def)

lemma put_tagged_after_hello_ticking:
  "fst (put_blog cast_ex (snd (post_blog w_empty raw_hello)) ''b0'' raw_tagged) =
     res_json 200 [(''success'', JBool True), (''message'', JStr ''Blog updated successfully''),
       (''data'', JBlog (doc_tagged\<lparr>createdAt := 1001, updatedAt := 1004\<rparr>))]"
  by (simp add: put_blog_passed valid_input_passes valid_raw_tagged post_hello_ticking)
    (simp add: example_defs eval_defs Let_def castTags_def or_empty_def schema_valid_def
      apply_update_def)

lemma put_tagged_after_hello_still:
  "fst (put_blog cast_ex (snd (post_blog w_still raw_hello)) ''b0'' raw_tagged) =
     res_json 200 [(''success'', JBool True), (''message'', JStr ''Blog updated successfully''),
       (''data'', JBlog doc_tagged)]"
  by (simp add: put_blog_passed valid_input_passes valid_raw_tagged post_hello_still)
    (simp add: example_defs eval_defs Let_def castTags_def or_empty_def schema_valid_def
      apply_update_def)

lemma put_hello_on_tagged:
  "put_blog cast_ex w_tagged ''b0'' raw_hello =
     (res_json 200 [(''success'', JBool True), (''message'', JStr ''Blog updated successfully''),
        (''data'', JBlog doc_hello)],
      w_tagged\<lparr>ticks := 5,
        trace := [InsertOne doc_tagged,
                  FindOneAndUpdate 0 \<lparr>set_title = js ''Hello'', set_content = js ''text'',
                    set_author = js ''Ann'', set_tags = Some [], set_updatedAt = 1000\<rparr>],
        docs := [doc_hello]\<rparr>)"
  by (simp add: put_blog_passed valid_input_passes valid_raw_hello)
    (simp add: example_defs eval_defs Let_def castTags_def or_empty_def schema_valid_def
      apply_update_def)

lemma validateBlog_raw_untitled:
  "snd (validateBlog raw_untitled) = [\<lparr>param = ''title'', msg = ''Title is required''\<rparr>]"
  by (simp add: validateBlog_def raw_untitled_def toString_def trim_def isSpace_def js_def check_def
      notEmpty_def isLength_max_def isArray_def characters_bound)

lemma violated_raw_untitled: "violated raw_untitled = [''title'', ''tags'']"
  by (simp add: violated_def field_names_def field_ok_def text_ok_def raw_untitled_def isText_def
      trim_def isSpace_def js_def)

section \<open>Claims about validation\<close>

text \<open>
  C4, as the code has it. A create or update request that the validation chains reject
  is answered 400, and the errors of that one response name every field that breaks a
  rule the chains check: the fields of the reported errors, in order and without
  repetition, are exactly those fields. Validation does not stop at the first
  violation. Every field reported breaks its rule of the data model, and for a plain
  request the fields reported are all the fields that do.
\<close>

theorem validation_collects_all_violations:
  assumes "rejected raw \<noteq> []"
  shows "status (fst (post_blog w raw)) = 400 \<and>
         remdups (map param (errors_of (fst (post_blog w raw)))) = rejected raw \<and>
         status (fst (put_blog cast w s raw)) = 400 \<and>
         remdups (map param (errors_of (fst (put_blog cast w s raw)))) = rejected raw \<and>
         set (rejected raw) \<subseteq> set (violated raw) \<and>
         (plain raw \<longrightarrow> rejected raw = violated raw)"
  using assms rejected_subset_violated [of raw]
  by (simp add: post_blog_rejected put_blog_rejected res_json_def errors_of_def validateBlog_params
      plain_rejected)

theorem validation_collects_all_violations_witness:
  "rejected raw_bad \<noteq> [] \<and> plain raw_bad \<and>
   status (fst (post_blog w_empty raw_bad)) = 400 \<and>
   remdups (map param (errors_of (fst (post_blog w_empty raw_bad)))) =
     [''title'', ''content'', ''author'', ''tags''] \<and>
   status (fst (put_blog cast_ex w_empty ''b0'' raw_bad)) = 400 \<and>
   remdups (map param (errors_of (fst (put_blog cast_ex w_empty ''b0'' raw_bad)))) =
     [''title'', ''content'', ''author'', ''tags''] \<and>
   violated raw_bad = [''title'', ''content'', ''author'', ''tags'']"
proof -
  have bad: "rejected raw_bad \<noteq> []"
    by (simp add: rejected_raw_bad)
  have p: "plain raw_bad"
    by (simp add: plain_def raw_bad_def toString_def trim_def isSpace_def js_def characters_def
        presentationSequences_def isHigh_def isLow_def)
  have v: "violated raw_bad = [''title'', ''content'', ''author'', ''tags'']"
    using plain_rejected [OF p] by (simp add: rejected_raw_bad)
  show ?thesis
    using bad p validation_collects_all_violations [OF bad, of w_empty cast_ex "''b0''"]
    by (simp add: rejected_raw_bad v)
qed

text \<open>
  C4, as stated, fails: in a request with no title and with tags that hold an object,
  title and tags break their rules, and the 400 response reports the title alone.
\<close>

theorem validation_misses_tag_elements_counterexample:
  "violated raw_untitled = [''title'', ''tags''] \<and>
   status (fst (post_blog w_empty raw_untitled)) = 400 \<and>
   map param (errors_of (fst (post_blog w_empty raw_untitled))) = [''title'']"
proof -
  have "rejected raw_untitled \<noteq> []"
    using validateBlog_errors_iff [of raw_untitled] by (simp add: validateBlog_raw_untitled)
  then show ?thesis
    by (simp add: violated_raw_untitled post_blog_rejected res_json_def errors_of_def
        validateBlog_raw_untitled)
qed

text \<open>
  C5. A create or update request that fails field validation is answered 400 with
  \<^verbatim>\<open>Validation failed\<close> and the list of errors, and the world is returned as it was: the
  collection is unchanged, no call was sent to the database and the clock was not read.
\<close>

theorem validation_failure_touches_nothing:
  assumes "snd (validateBlog raw) \<noteq> []"
  shows "post_blog w raw =
           (res_json 400 [(''success'', JBool False), (''message'', JStr ''Validation failed''),
                          (''errors'', JErrors (snd (validateBlog raw)))], w) \<and>
         put_blog cast w s raw =
           (res_json 400 [(''success'', JBool False), (''message'', JStr ''Validation failed''),
                          (''errors'', JErrors (snd (validateBlog raw)))], w)"
  using assms by (simp add: post_blog_rejected put_blog_rejected validateBlog_errors_iff)

theorem validation_failure_touches_nothing_witness:
  "snd (validateBlog raw_bad) \<noteq> [] \<and>
   snd (post_blog w_empty raw_bad) = w_empty \<and>
   snd (put_blog cast_ex w_empty ''b0'' raw_bad) = w_empty \<and>
   errors_of (fst (post_blog w_empty raw_bad)) = snd (validateBlog raw_bad) \<and>
   errors_of (fst (put_blog cast_ex w_empty ''b0'' raw_bad)) = snd (validateBlog raw_bad)"
proof -
  have bad: "snd (validateBlog raw_bad) \<noteq> []"
    by (simp add: validateBlog_raw_bad)
  show ?thesis
    using bad validation_failure_touches_nothing [OF bad, of w_empty cast_ex "''b0''"]
    by (simp add: errors_of_def res_json_def)
qed

section \<open>Claims about listing and the response envelope\<close>

text \<open>
  C6. With the database reachable, the list operation answers 200 with an envelope of a
  true success flag, a count and the data; the data holds every stored entity, each as
  often as it is stored, whatever the order of insertion; it is ordered by
  \<^verbatim>\<open>createdAt\<close>, newest first; and the count is the number of entities returned.
\<close>

theorem list_newest_first:
  assumes "up w"
  shows "\<exists>ds. fst (get_blogs w) =
            res_json 200 [(''success'', JBool True), (''count'', JNum (length ds)), (''data'', JBlogs ds)] \<and>
          newest_first ds \<and> mset ds = mset (docs w)"
proof (intro exI conjI)
  show "fst (get_blogs w) =
      res_json 200 [(''success'', JBool True),
        (''count'', JNum (length (sort_key (\<lambda>d. - createdAt d) (docs w)))),
        (''data'', JBlogs (sort_key (\<lambda>d. - createdAt d) (docs w)))]"
    using assms by (simp add: get_blogs_def find_sorted_def Let_def)
  show "newest_first (sort_key (\<lambda>d. - createdAt d) (docs w))"
    by (rule newest_first_sort)
  show "mset (sort_key (\<lambda>d. - createdAt d) (docs w)) = mset (docs w)"
    by simp
qed

theorem list_newest_first_witness:
  "up w_three \<and>
   fst (get_blogs w_three) =
     res_json 200 [(''success'', JBool True), (''count'', JNum 3),
       (''data'', JBlogs [doc_a\<lparr>doc_id := 1, createdAt := 30\<rparr>, doc_a\<lparr>doc_id := 2, createdAt := 20\<rparr>, doc_a])]"
proof -
  have u: "up w_three" by (simp add: w_three_def w_empty_def)
  have "fst (get_blogs w_three) =
     res_json 200 [(''success'', JBool True), (''count'', JNum 3),
       (''data'', JBlogs [doc_a\<lparr>doc_id := 1, createdAt := 30\<rparr>, doc_a\<lparr>doc_id := 2, createdAt := 20\<rparr>, doc_a])]"
    by (simp add: get_blogs_def find_sorted_def w_three_def w_empty_def doc_a_def numeral_3_eq_3)
  with u list_newest_first [OF u] show ?thesis by simp
qed

text \<open>
  C9. Every response of the five handlers (list, get by id, create, update, delete)
  carries a boolean \<^verbatim>\<open>success\<close>, and it is true exactly when the status is 2xx: true
  on 200 and 201, false on 400, 404 and 500, the only statuses the handlers send.
\<close>

theorem success_flag_matches_status:
  "envelope_ok (fst (get_blogs w)) \<and> envelope_ok (fst (get_blog cast w s)) \<and>
   envelope_ok (fst (post_blog w raw)) \<and> envelope_ok (fst (put_blog cast w s raw)) \<and>
   envelope_ok (fst (delete_blog cast w s))"
  by (simp add: envelope_ok_get_blogs envelope_ok_get_blog envelope_ok_post_blog
      envelope_ok_put_blog envelope_ok_delete_blog)

theorem success_flag_matches_status_witness:
  "success_of (fst (post_blog w_still raw_hello)) = Some (JBool True) \<and>
   status (fst (post_blog w_still raw_hello)) = 201 \<and>
   success_of (fst (get_blog cast_ex w_still ''b0'')) = Some (JBool False) \<and>
   status (fst (get_blog cast_ex w_still ''b0'')) = 404 \<and>
   success_of (fst (delete_blog cast_ex w_still ''zz'')) = Some (JBool False) \<and>
   status (fst (delete_blog cast_ex w_still ''zz'')) = 400 \<and>
   success_of (fst (get_blogs (w_still\<lparr>up := False\<rparr>))) = Some (JBool False) \<and>
   status (fst (get_blogs (w_still\<lparr>up := False\<rparr>))) = 500"
proof -
  have "status (fst (post_blog w_still raw_hello)) = 201"
    by (simp add: post_hello_still res_json_def)
  moreover have "status (fst (get_blog cast_ex w_still ''b0'')) = 404"
    by (simp add: get_blog_def findById_def Let_def example_defs eval_defs)
  moreover have "status (fst (delete_blog cast_ex w_still ''zz'')) = 400"
    by (simp add: delete_blog_def findByIdAndDelete_def Let_def example_defs eval_defs)
  moreover have "status (fst (get_blogs (w_still\<lparr>up := False\<rparr>))) = 500"
    by (simp add: get_blogs_def find_sorted_def Let_def example_defs eval_defs)
  ultimately show ?thesis
    using success_flag_matches_status [of w_still cast_ex "''b0''" raw_hello]
      success_flag_matches_status [of "w_still\<lparr>up := False\<rparr>" cast_ex "''zz''" raw_hello]
      success_flag_matches_status [of w_still cast_ex "''zz''" raw_hello]
    by (simp add: envelope_ok_def)
qed

section \<open>Claims about creation\<close>

text \<open>
  C1, as the code has it. For every valid creation input, with the database reachable
  and the generated identifier not in use, the create operation answers 201 and returns
  the entity it has appended to the collection. Its identifier is the generated one.
  Of the four readings of the clock that the operation makes, the first goes into the
  identifier, \<^verbatim>\<open>createdAt\<close> is the second, taken when the document is constructed, and
  \<^verbatim>\<open>updatedAt\<close> is the fourth, taken by the pre-save hook (the third is the default of
  \<^verbatim>\<open>updatedAt\<close> that the hook overwrites). The two are equal exactly when those two
  readings of the clock are.
\<close>

theorem create_stamps:
  assumes "valid_input raw" and "up w" and "findOne (nextId w) (docs w) = None"
  shows "\<exists>d. fst (post_blog w raw) =
             res_json 201 [(''success'', JBool True), (''message'', JStr ''Blog created successfully''),
                           (''data'', JBlog d)] \<and>
           docs (snd (post_blog w raw)) = docs w @ [d] \<and>
           doc_id d = nextId w \<and>
           createdAt d = clock w (ticks w + 1) \<and>
           updatedAt d = clock w (ticks w + 3) \<and>
           (createdAt d = updatedAt d \<longleftrightarrow> clock w (ticks w + 1) = clock w (ticks w + 3))"
  using assms by (simp add: post_blog_valid Let_def)

theorem create_stamps_witness:
  "valid_input raw_hello \<and> up w_still \<and> findOne (nextId w_still) (docs w_still) = None \<and>
   data_of (fst (post_blog w_still raw_hello)) = Some doc_hello \<and>
   docs (snd (post_blog w_still raw_hello)) = [doc_hello] \<and>
   createdAt doc_hello = updatedAt doc_hello"
proof -
  have u: "up w_still" and f: "findOne (nextId w_still) (docs w_still) = None"
    by (simp_all add: example_defs eval_defs)
  show ?thesis
    using u f valid_raw_hello create_stamps [OF valid_raw_hello u f]
    by (simp add: post_hello_still) (simp add: example_defs eval_defs)
qed

text \<open>
  C1, as stated, fails: with a clock that advances between the readings, a valid
  request creates an entity whose \<^verbatim>\<open>createdAt\<close> is 1001 and whose \<^verbatim>\<open>updatedAt\<close> is 1003.
\<close>

theorem create_stamps_differ_counterexample:
  "valid_input raw_hello \<and> status (fst (post_blog w_empty raw_hello)) = 201 \<and>
   map_option createdAt (data_of (fst (post_blog w_empty raw_hello))) = Some 1001 \<and>
   map_option updatedAt (data_of (fst (post_blog w_empty raw_hello))) = Some 1003"
  by (simp add: valid_raw_hello post_hello_ticking) (simp add: example_defs eval_defs)

text \<open>
  C10. Whenever a create request is accepted (201), title, content and author were
  supplied, the validation chains have put their trimmed values into the body, and the
  entity returned and stored holds those trimmed values; fetching by
  any identifier string that the storage layer reads as the returned identifier, right
  after, answers 200 with that same entity, so with the trimmed strings.
\<close>

theorem create_stores_trimmed:
  assumes "status (fst (post_blog w raw)) = 201"
  shows "\<exists>t c a d. body_title raw = Some t \<and> body_content raw = Some c \<and> body_author raw = Some a \<and>
           body_title (fst (validateBlog raw)) = trim t \<and>
           body_content (fst (validateBlog raw)) = trim c \<and>
           body_author (fst (validateBlog raw)) = trim a \<and>
           data_of (fst (post_blog w raw)) = Some d \<and>
           title d = trim t \<and> content d = trim c \<and> author d = trim a \<and>
           findOne (doc_id d) (docs (snd (post_blog w raw))) = Some d \<and>
           (\<forall>s. cast s = Some (doc_id d) \<longrightarrow>
              fst (get_blog cast (snd (post_blog w raw)) s) =
                res_json 200 [(''success'', JBool True), (''data'', JBlog d)])"
proof -
  from assms have v: "rejected raw = []" and acc: "schema_accepts raw" and u: "up w"
    and f: "findOne (nextId w) (docs w) = None"
    by (simp_all add: post_blog_201)
  from passed_fields [OF v] obtain t c a where
    raw: "body_title raw = Some t" "body_content raw = Some c" "body_author raw = Some a"
    by blast
  let ?d = "\<lparr>doc_id = nextId w, title = trim t, content = trim c, author = trim a,
              tags = (case body_tags raw of Arr xs \<Rightarrow> map trim (texts xs) | Undefined \<Rightarrow> [] | Str x \<Rightarrow> []),
              createdAt = clock w (ticks w + 1), updatedAt = clock w (ticks w + 3)\<rparr>"
  have p: "post_blog w raw =
      (res_json 201 [(''success'', JBool True), (''message'', JStr ''Blog created successfully''),
                     (''data'', JBlog ?d)],
       w\<lparr>nextId := Suc (nextId w), ticks := ticks w + 4, trace := trace w @ [InsertOne ?d],
         docs := docs w @ [?d]\<rparr>)"
    using u f raw by (simp add: post_blog_accepted [OF v acc] Let_def toString_def)
  have stored: "findOne (doc_id ?d) (docs (snd (post_blog w raw))) = Some ?d"
    using f by (simp add: p findOne_append findOne_Cons)
  have fetch: "\<forall>s. cast s = Some (doc_id ?d) \<longrightarrow>
      fst (get_blog cast (snd (post_blog w raw)) s) =
        res_json 200 [(''success'', JBool True), (''data'', JBlog ?d)]"
  proof (intro allI impI)
    fix s assume "cast s = Some (doc_id ?d)"
    moreover have "up (snd (post_blog w raw))" using u by (simp add: p)
    ultimately show "fst (get_blog cast (snd (post_blog w raw)) s) =
        res_json 200 [(''success'', JBool True), (''data'', JBlog ?d)]"
      using stored by (rule get_blog_found)
  qed
  have "data_of (fst (post_blog w raw)) = Some ?d"
    by (simp add: p data_of_def res_json_def)
  with raw stored fetch show ?thesis
    by (intro exI [of _ t] exI [of _ c] exI [of _ a] exI [of _ ?d])
      (simp add: validateBlog_fst toString_def)
qed

theorem create_stores_trimmed_witness:
  "status (fst (post_blog w_still raw_hello)) = 201 \<and>
   body_title raw_hello = Some (js ''  Hello '') \<and>
   map_option title (data_of (fst (post_blog w_still raw_hello))) = Some (js ''Hello'') \<and>
   cast_ex ''b0'' = Some 0 \<and>
   fst (get_blog cast_ex (snd (post_blog w_still raw_hello)) ''b0'') =
     res_json 200 [(''success'', JBool True), (''data'', JBlog doc_hello)]"
proof -
  have st: "status (fst (post_blog w_still raw_hello)) = 201"
    by (simp add: post_hello_still res_json_def)
  have c: "cast_ex ''b0'' = Some 0" by (simp add: cast_ex_def)
  from create_stores_trimmed [OF st, of cast_ex]
  have "cast_ex ''b0'' = Some (doc_id doc_hello) \<longrightarrow>
      fst (get_blog cast_ex (snd (post_blog w_still raw_hello)) ''b0'') =
        res_json 200 [(''success'', JBool True), (''data'', JBlog doc_hello)]"
    by (auto simp: post_hello_still data_of_def res_json_def)
  with st c show ?thesis
    by (simp add: post_hello_still) (simp add: example_defs eval_defs)
qed

text \<open>
  C7. When a request omits \<^verbatim>\<open>tags\<close>, an accepted create (201) returns and stores an
  entity whose tags are the empty sequence, and a successful update (200) returns and
  leaves stored under the identifier an entity whose tags are the empty sequence,
  whatever its tags were: the update sent to the database does not leave the key out, it
  sets tags to the empty sequence.
\<close>

theorem omitted_tags_are_empty:
  assumes "body_tags raw = Undefined"
  shows "(status (fst (post_blog w raw)) = 201 \<longrightarrow>
            (\<exists>d. data_of (fst (post_blog w raw)) = Some d \<and> tags d = [] \<and>
                  docs (snd (post_blog w raw)) = docs w @ [d])) \<and>
         (status (fst (put_blog cast w s raw)) = 200 \<longrightarrow>
            (\<exists>i d u. cast s = Some i \<and> data_of (fst (put_blog cast w s raw)) = Some d \<and> tags d = [] \<and>
                    findOne i (docs (snd (put_blog cast w s raw))) = Some d \<and>
                    trace (snd (put_blog cast w s raw)) = trace w @ [FindOneAndUpdate i u] \<and>
                    set_tags u = Some []))"
proof (intro conjI impI)
  assume "status (fst (post_blog w raw)) = 201"
  then have "rejected raw = []" and "schema_accepts raw" and "up w"
    and "findOne (nextId w) (docs w) = None"
    by (simp_all add: post_blog_201)
  then show "\<exists>d. data_of (fst (post_blog w raw)) = Some d \<and> tags d = [] \<and>
                  docs (snd (post_blog w raw)) = docs w @ [d]"
    using assms
    by (simp add: post_blog_accepted Let_def data_of_def res_json_def)
next
  assume st: "status (fst (put_blog cast w s raw)) = 200"
  from put_blog_updated [OF st] obtain i d d' t c a u where
    c: "cast s = Some i" and
    d': "d' = d\<lparr>title := trim t, content := trim c, author := trim a,
             tags := (case body_tags raw of Arr xs \<Rightarrow> map trim (texts xs) | Undefined \<Rightarrow> [] | Str x \<Rightarrow> []),
             updatedAt := clock w (ticks w)\<rparr>" and
    out: "data_of (fst (put_blog cast w s raw)) = Some d'"
      "findOne i (docs (snd (put_blog cast w s raw))) = Some d'"
      "trace (snd (put_blog cast w s raw)) = trace w @ [FindOneAndUpdate i u]"
      "set_tags u = Some (tags d')"
    by blast
  have "tags d' = []" using d' assms by simp
  with c out show "\<exists>i d u. cast s = Some i \<and> data_of (fst (put_blog cast w s raw)) = Some d \<and>
      tags d = [] \<and> findOne i (docs (snd (put_blog cast w s raw))) = Some d \<and>
      trace (snd (put_blog cast w s raw)) = trace w @ [FindOneAndUpdate i u] \<and>
      set_tags u = Some []"
    by (intro exI [of _ i] exI [of _ d'] exI [of _ u]) simp
qed

theorem omitted_tags_are_empty_witness:
  "body_tags raw_hello = Undefined \<and>
   status (fst (post_blog w_still raw_hello)) = 201 \<and>
   map_option tags (data_of (fst (post_blog w_still raw_hello))) = Some [] \<and>
   map tags (docs (snd (post_blog w_still raw_hello))) = [[]] \<and>
   map tags (docs w_tagged) = [[js ''a'', js ''b'']] \<and>
   status (fst (put_blog cast_ex w_tagged ''b0'' raw_hello)) = 200 \<and>
   map_option tags (data_of (fst (put_blog cast_ex w_tagged ''b0'' raw_hello))) = Some [] \<and>
   map tags (docs (snd (put_blog cast_ex w_tagged ''b0'' raw_hello))) = [[]] \<and>
   trace (snd (put_blog cast_ex w_tagged ''b0'' raw_hello)) =
     trace w_tagged @
       [FindOneAndUpdate 0 \<lparr>set_title = js ''Hello'', set_content = js ''text'',
          set_author = js ''Ann'', set_tags = Some [], set_updatedAt = 1000\<rparr>]"
proof -
  have t: "body_tags raw_hello = Undefined" by (simp add: raw_hello_def)
  have created: "status (fst (post_blog w_still raw_hello)) = 201"
    "data_of (fst (post_blog w_still raw_hello)) = Some doc_hello"
    "docs (snd (post_blog w_still raw_hello)) = [doc_hello]"
    by (simp_all add: post_hello_still data_of_def res_json_def) (simp add: w_hello_def)
  have updated: "status (fst (put_blog cast_ex w_tagged ''b0'' raw_hello)) = 200"
    "data_of (fst (put_blog cast_ex w_tagged ''b0'' raw_hello)) = Some doc_hello"
    "docs (snd (put_blog cast_ex w_tagged ''b0'' raw_hello)) = [doc_hello]"
    "trace (snd (put_blog cast_ex w_tagged ''b0'' raw_hello)) =
       trace w_tagged @
         [FindOneAndUpdate 0 \<lparr>set_title = js ''Hello'', set_content = js ''text'',
            set_author = js ''Ann'', set_tags = Some [], set_updatedAt = 1000\<rparr>]"
    by (simp_all add: put_hello_on_tagged data_of_def res_json_def) (simp add: w_tagged_def)
  show ?thesis
    using t omitted_tags_are_empty [OF t, of w_still cast_ex "''b0''"]
      omitted_tags_are_empty [OF t, of w_tagged cast_ex "''b0''"]
    by (simp add: created updated) (simp add: example_defs)
qed

section \<open>Claims about update\<close>

text \<open>
  C2, as the code has it. Every successful update (200) is of an existing entity, stored
  under the identifier the request names. The operation overwrites exactly its title,
  content and author with the trimmed supplied strings and its tags with the supplied
  sequence of text values, each element trimmed (the empty sequence when tags is
  omitted), sets \<^verbatim>\<open>updatedAt\<close> to the reading of the clock taken by the pre-update hook,
  and leaves the identifier and \<^verbatim>\<open>createdAt\<close> as they were. It returns the updated
  entity, which is then what is stored under the identifier; every other entity is
  untouched.
\<close>

theorem update_overwrites:
  assumes "status (fst (put_blog cast w s raw)) = 200"
  shows "\<exists>i d d' t c a.
      cast s = Some i \<and> findOne i (docs w) = Some d \<and>
      body_title raw = Some t \<and> body_content raw = Some c \<and> body_author raw = Some a \<and>
      (\<forall>xs. body_tags raw = Arr xs \<longrightarrow> xs = map Text (texts xs)) \<and>
      d' = d\<lparr>title := trim t, content := trim c, author := trim a,
             tags := (case body_tags raw of Arr xs \<Rightarrow> map trim (texts xs) | Undefined \<Rightarrow> [] | Str x \<Rightarrow> []),
             updatedAt := clock w (ticks w)\<rparr> \<and>
      doc_id d' = doc_id d \<and> createdAt d' = createdAt d \<and>
      data_of (fst (put_blog cast w s raw)) = Some d' \<and>
      docs (snd (put_blog cast w s raw)) = replace_first i d' (docs w) \<and>
      findOne i (docs (snd (put_blog cast w s raw))) = Some d' \<and>
      (\<forall>j. j \<noteq> i \<longrightarrow> findOne j (docs (snd (put_blog cast w s raw))) = findOne j (docs w)) \<and>
      length (docs (snd (put_blog cast w s raw))) = length (docs w)"
proof -
  from put_blog_updated [OF assms] obtain i d d' t c a where
    c: "cast s = Some i" and f: "findOne i (docs w) = Some d" and
    raw: "body_title raw = Some t" "body_content raw = Some c" "body_author raw = Some a"
      "\<forall>xs. body_tags raw = Arr xs \<longrightarrow> xs = map Text (texts xs)" and
    d': "d' = d\<lparr>title := trim t, content := trim c, author := trim a,
             tags := (case body_tags raw of Arr xs \<Rightarrow> map trim (texts xs) | Undefined \<Rightarrow> [] | Str x \<Rightarrow> []),
             updatedAt := clock w (ticks w)\<rparr>" and
    out: "data_of (fst (put_blog cast w s raw)) = Some d'"
      "docs (snd (put_blog cast w s raw)) = replace_first i d' (docs w)"
      "findOne i (docs (snd (put_blog cast w s raw))) = Some d'"
    by blast
  have id: "doc_id d' = i" using findOne_doc_id [OF f] d' by simp
  have kept: "doc_id d' = doc_id d" "createdAt d' = createdAt d"
    using d' by simp_all
  have others: "\<forall>j. j \<noteq> i \<longrightarrow> findOne j (docs (snd (put_blog cast w s raw))) = findOne j (docs w)"
    by (simp add: out findOne_replace_first [OF id])
  have len: "length (docs (snd (put_blog cast w s raw))) = length (docs w)"
    by (simp add: out length_replace_first)
  from c f raw d' kept out others len show ?thesis
    by blast
qed

theorem update_overwrites_witness:
  "status (fst (put_blog cast_ex w_hello ''b0'' raw_padded)) = 200 \<and>
   data_of (fst (put_blog cast_ex w_hello ''b0'' raw_padded)) =
     Some (doc_hello\<lparr>title := js ''New'', content := js ''fresh'', author := js ''Cy'',
                      tags := [js ''x'']\<rparr>) \<and>
   docs (snd (put_blog cast_ex w_hello ''b0'' raw_padded)) =
     [doc_hello\<lparr>title := js ''New'', content := js ''fresh'', author := js ''Cy'', tags := [js ''x'']\<rparr>]"
proof -
  have st: "status (fst (put_blog cast_ex w_hello ''b0'' raw_padded)) = 200"
    by (simp add: put_padded res_json_def)
  show ?thesis
    using st update_overwrites [OF st]
    by (simp add: put_padded data_of_def res_json_def)
qed

text \<open>
  C2, as stated, fails: the title supplied is \<open>'' New ''\<close>, with a space on either
  side, and the title stored and returned is \<open>''New''\<close>.
\<close>

theorem update_trims_counterexample:
  "status (fst (put_blog cast_ex w_hello ''b0'' raw_padded)) = 200 \<and>
   body_title raw_padded = Some (js '' New '') \<and>
   map_option title (data_of (fst (put_blog cast_ex w_hello ''b0'' raw_padded))) = Some (js ''New'') \<and>
   map title (docs (snd (put_blog cast_ex w_hello ''b0'' raw_padded))) = [js ''New'']"
  by (simp add: put_padded data_of_def res_json_def) (simp add: raw_padded_def)

text \<open>
  C8, as the code has it. After every successful update the entity's \<^verbatim>\<open>updatedAt\<close> is
  the reading of the clock taken by the pre-update hook and its \<^verbatim>\<open>createdAt\<close> is
  unchanged; so \<^verbatim>\<open>updatedAt\<close> is strictly greater than before exactly when that reading
  is later than the previous \<^verbatim>\<open>updatedAt\<close>.
\<close>

theorem update_stamps_updatedAt:
  assumes "status (fst (put_blog cast w s raw)) = 200"
  shows "\<exists>i d d'.
      cast s = Some i \<and> findOne i (docs w) = Some d \<and>
      data_of (fst (put_blog cast w s raw)) = Some d' \<and>
      findOne i (docs (snd (put_blog cast w s raw))) = Some d' \<and>
      updatedAt d' = clock w (ticks w) \<and>
      createdAt d' = createdAt d \<and>
      (updatedAt d < updatedAt d' \<longleftrightarrow> updatedAt d < clock w (ticks w))"
proof -
  from put_blog_updated [OF assms] obtain i d d' t c a where
    c: "cast s = Some i" and f: "findOne i (docs w) = Some d" and
    d': "d' = d\<lparr>title := trim t, content := trim c, author := trim a,
             tags := (case body_tags raw of Arr xs \<Rightarrow> map trim (texts xs) | Undefined \<Rightarrow> [] | Str x \<Rightarrow> []),
             updatedAt := clock w (ticks w)\<rparr>" and
    out: "data_of (fst (put_blog cast w s raw)) = Some d'"
      "findOne i (docs (snd (put_blog cast w s raw))) = Some d'"
    by blast
  have "updatedAt d' = clock w (ticks w)" and "createdAt d' = createdAt d"
    using d' by simp_all
  with c f out show ?thesis
    by (intro exI [of _ i] exI [of _ d] exI [of _ d']) simp
qed

theorem update_stamps_updatedAt_witness:
  "status (fst (put_blog cast_ex (snd (post_blog w_empty raw_hello)) ''b0'' raw_tagged)) = 200 \<and>
   map_option updatedAt (findOne 0 (docs (snd (post_blog w_empty raw_hello)))) = Some 1003 \<and>
   map_option updatedAt
     (data_of (fst (put_blog cast_ex (snd (post_blog w_empty raw_hello)) ''b0'' raw_tagged))) = Some 1004 \<and>
   map_option createdAt (findOne 0 (docs (snd (post_blog w_empty raw_hello)))) = Some 1001 \<and>
   map_option createdAt
     (data_of (fst (put_blog cast_ex (snd (post_blog w_empty raw_hello)) ''b0'' raw_tagged))) = Some 1001"
proof -
  have st: "status (fst (put_blog cast_ex (snd (post_blog w_empty raw_hello)) ''b0'' raw_tagged)) = 200"
    by (simp add: put_tagged_after_hello_ticking res_json_def)
  have before: "findOne 0 (docs (snd (post_blog w_empty raw_hello))) =
      Some (doc_hello\<lparr>createdAt := 1001, updatedAt := 1003\<rparr>)"
    by (simp add: post_hello_ticking) (simp add: example_defs eval_defs)
  have after: "data_of (fst (put_blog cast_ex (snd (post_blog w_empty raw_hello)) ''b0'' raw_tagged)) =
      Some (doc_tagged\<lparr>createdAt := 1001, updatedAt := 1004\<rparr>)"
    by (simp add: put_tagged_after_hello_ticking data_of_def res_json_def)
  show ?thesis
    using st update_stamps_updatedAt [OF st]
    by (simp add: before after)
qed

text \<open>
  C8, as stated, fails: an entity created and then updated within the same millisecond
  has \<^verbatim>\<open>updatedAt\<close> 1000 before the update and 1000 after it.
\<close>

theorem update_same_millisecond_counterexample:
  "status (fst (put_blog cast_ex (snd (post_blog w_still raw_hello)) ''b0'' raw_tagged)) = 200 \<and>
   map_option updatedAt (findOne 0 (docs (snd (post_blog w_still raw_hello)))) = Some 1000 \<and>
   map_option updatedAt
     (data_of (fst (put_blog cast_ex (snd (post_blog w_still raw_hello)) ''b0'' raw_tagged))) = Some 1000"
proof -
  have before: "findOne 0 (docs (snd (post_blog w_still raw_hello))) = Some doc_hello"
    by (simp add: post_hello_still) (simp add: example_defs eval_defs)
  have after: "data_of (fst (put_blog cast_ex (snd (post_blog w_still raw_hello)) ''b0'' raw_tagged)) =
      Some doc_tagged"
    by (simp add: put_tagged_after_hello_still data_of_def res_json_def)
  have st: "status (fst (put_blog cast_ex (snd (post_blog w_still raw_hello)) ''b0'' raw_tagged)) = 200"
    by (simp add: put_tagged_after_hello_still res_json_def)
  show ?thesis
    by (simp add: st before after) (simp add: example_defs)
qed

section \<open>Claims about identifiers\<close>

text \<open>
  C3, as the code has it. A malformed identifier is never answered 404: get-by-id and
  delete answer 400 \<^verbatim>\<open>Invalid blog ID\<close>, and so does an update whose body is valid. With
  the database reachable, a well-formed identifier that names no document is answered
  404 \<^verbatim>\<open>Blog not found\<close> by get-by-id and delete, and by an update whose body is valid.
  An update whose body the validation chains reject is answered 400
  \<^verbatim>\<open>Validation failed\<close>, whatever the identifier.
\<close>

theorem identifier_errors:
  "(malformed cast s \<longrightarrow>
      fst (get_blog cast w s) =
        res_json 400 [(''success'', JBool False), (''message'', JStr ''Invalid blog ID'')] \<and>
      fst (delete_blog cast w s) =
        res_json 400 [(''success'', JBool False), (''message'', JStr ''Invalid blog ID'')] \<and>
      status (fst (put_blog cast w s raw)) \<noteq> 404 \<and>
      (valid_input raw \<longrightarrow>
         fst (put_blog cast w s raw) =
           res_json 400 [(''success'', JBool False), (''message'', JStr ''Invalid blog ID'')])) \<and>
   (absent cast w s \<and> up w \<longrightarrow>
      fst (get_blog cast w s) =
        res_json 404 [(''success'', JBool False), (''message'', JStr ''Blog not found'')] \<and>
      fst (delete_blog cast w s) =
        res_json 404 [(''success'', JBool False), (''message'', JStr ''Blog not found'')] \<and>
      (valid_input raw \<longrightarrow>
         fst (put_blog cast w s raw) =
           res_json 404 [(''success'', JBool False), (''message'', JStr ''Blog not found'')])) \<and>
   (rejected raw \<noteq> [] \<longrightarrow>
      status (fst (put_blog cast w s raw)) = 400 \<and>
      message_of (fst (put_blog cast w s raw)) = Some (JStr ''Validation failed''))"
proof (intro conjI impI)
  assume "malformed cast s"
  then have c: "cast s = None" by (simp add: malformed_def)
  show "fst (get_blog cast w s) =
      res_json 400 [(''success'', JBool False), (''message'', JStr ''Invalid blog ID'')]"
    using c by (simp add: get_blog_def findById_def)
  show "fst (delete_blog cast w s) =
      res_json 400 [(''success'', JBool False), (''message'', JStr ''Invalid blog ID'')]"
    using c by (simp add: delete_blog_def findByIdAndDelete_def)
  show "status (fst (put_blog cast w s raw)) \<noteq> 404"
    using c by (cases "rejected raw = []") (simp_all add: put_blog_passed put_blog_rejected res_json_def)
  show "fst (put_blog cast w s raw) =
      res_json 400 [(''success'', JBool False), (''message'', JStr ''Invalid blog ID'')]"
    if "valid_input raw"
    using c valid_input_passes [OF that] by (simp add: put_blog_passed)
next
  assume a: "absent cast w s \<and> up w"
  then obtain i where c: "cast s = Some i" and u: "up w" and f: "findOne i (docs w) = None"
    by (auto simp: absent_def split: option.splits)
  show "fst (get_blog cast w s) =
      res_json 404 [(''success'', JBool False), (''message'', JStr ''Blog not found'')]"
    using c u f by (simp add: get_blog_def findById_def Let_def)
  show "fst (delete_blog cast w s) =
      res_json 404 [(''success'', JBool False), (''message'', JStr ''Blog not found'')]"
    using c u f by (simp add: delete_blog_def findByIdAndDelete_def Let_def)
  show "fst (put_blog cast w s raw) =
      res_json 404 [(''success'', JBool False), (''message'', JStr ''Blog not found'')]"
    if "valid_input raw"
  proof -
    from valid_input_accepted [OF that]
    have "schema_valid (trim (toString (body_title raw))) (trim (toString (body_content raw)))
            (trim (toString (body_author raw)))"
      and "castTags (or_empty (body_tags raw)) \<noteq> None"
      by (simp_all add: schema_accepts_def)
    then show ?thesis
      using c u f by (auto simp: put_blog_passed [OF valid_input_passes [OF that]] Let_def)
  qed
next
  assume "rejected raw \<noteq> []"
  then show "status (fst (put_blog cast w s raw)) = 400"
    and "message_of (fst (put_blog cast w s raw)) = Some (JStr ''Validation failed'')"
    by (simp_all add: put_blog_rejected res_json_def message_of_def)
qed

theorem identifier_errors_witness:
  "malformed cast_ex ''not-an-id'' \<and>
   status (fst (get_blog cast_ex w_hello ''not-an-id'')) = 400 \<and>
   status (fst (delete_blog cast_ex w_hello ''not-an-id'')) = 400 \<and>
   status (fst (put_blog cast_ex w_hello ''not-an-id'' raw_padded)) = 400 \<and>
   message_of (fst (put_blog cast_ex w_hello ''not-an-id'' raw_padded)) = Some (JStr ''Invalid blog ID'') \<and>
   absent cast_ex w_hello ''b1'' \<and> up w_hello \<and> valid_input raw_padded \<and>
   status (fst (get_blog cast_ex w_hello ''b1'')) = 404 \<and>
   status (fst (delete_blog cast_ex w_hello ''b1'')) = 404 \<and>
   status (fst (put_blog cast_ex w_hello ''b1'' raw_padded)) = 404 \<and>
   rejected raw_bad \<noteq> [] \<and>
   status (fst (put_blog cast_ex w_hello ''not-an-id'' raw_bad)) = 400"
proof -
  have m: "malformed cast_ex ''not-an-id''"
    by (simp add: malformed_def cast_ex_def)
  have a: "absent cast_ex w_hello ''b1''" and u: "up w_hello"
    by (simp_all add: absent_def example_defs eval_defs)
  have r: "rejected raw_bad \<noteq> []"
    by (simp add: rejected_raw_bad)
  show ?thesis
    using m a u r valid_raw_padded
      identifier_errors [of cast_ex "''not-an-id''" w_hello raw_padded]
      identifier_errors [of cast_ex "''b1''" w_hello raw_padded]
      identifier_errors [of cast_ex "''not-an-id''" w_hello raw_bad]
    by (simp add: res_json_def message_of_def)
qed

text \<open>
  C3, as stated, fails for update: with a body that the chains reject, a well-formed
  identifier that names no document is answered 400 and not 404, and a malformed one
  is answered \<^verbatim>\<open>Validation failed\<close> and not \<^verbatim>\<open>Invalid blog ID\<close>.
\<close>

theorem update_validates_first_counterexample:
  "absent cast_ex w_hello ''b1'' \<and> up w_hello \<and>
   status (fst (put_blog cast_ex w_hello ''b1'' raw_bad)) = 400 \<and>
   message_of (fst (put_blog cast_ex w_hello ''b1'' raw_bad)) = Some (JStr ''Validation failed'') \<and>
   malformed cast_ex ''not-an-id'' \<and>
   message_of (fst (put_blog cast_ex w_hello ''not-an-id'' raw_bad)) = Some (JStr ''Validation failed'')"
proof -
  have r: "rejected raw_bad \<noteq> []"
    by (simp add: rejected_raw_bad)
  show ?thesis
    by (simp add: put_blog_rejected [OF r])
      (simp add: absent_def malformed_def message_of_def example_defs eval_defs)
qed

end
